theory Spec2Isabelle
  imports Complex_Main
begin

section \<open>Python values\<close>

text \<open>
  A Python \<open>str\<close> is modelled as a \<open>string\<close>: a list of characters with code points below
  256, so \<open>ord\<close> is \<open>of_char\<close> and \<open>chr\<close> is \<open>char_of\<close> on that range.

  A Python \<open>float\<close> is an IEEE double: a finite value (kept as the rational number it
  denotes; the sign of zero is not observed by this program), an infinity or a NaN.
  The program never computes with floats: it parses them, tests their truth value and
  compares them.
\<close>

datatype pyfloat = FNum rat | FPosInf | FNegInf | FNaN

text \<open>A cell value of the grid: \<open>None\<close>, an \<open>int\<close>, a \<open>float\<close> or a \<open>str\<close>.\<close>

datatype cell = CNone | CInt int | CFloat pyfloat | CStr string

type_synonym row = "cell list"
type_synonym grid = "cell list list"

text \<open>Truth value testing (\<open>not v\<close>, \<open>if v\<close>).\<close>

fun float_truthy :: "pyfloat \<Rightarrow> bool" where
  "float_truthy (FNum q) = (q \<noteq> 0)"
| "float_truthy FPosInf = True"
| "float_truthy FNegInf = True"
| "float_truthy FNaN = True"

fun truthy :: "cell \<Rightarrow> bool" where
  "truthy CNone = False"
| "truthy (CInt i) = (i \<noteq> 0)"
| "truthy (CFloat f) = float_truthy f"
| "truthy (CStr s) = (s \<noteq> [])"

text \<open>
  \<open>==\<close> between cell values. Numbers compare by value across \<open>int\<close> and \<open>float\<close>, a NaN
  differs from everything, values of different kinds differ. Every float of a grid is an
  object of its own, so the identity shortcut of \<open>in\<close>, \<open>list.index\<close> and of dictionary
  lookup never applies to a NaN and these use \<open>py_eq\<close> as well.
\<close>

fun float_eq :: "pyfloat \<Rightarrow> pyfloat \<Rightarrow> bool" where
  "float_eq (FNum p) (FNum q) = (p = q)"
| "float_eq FPosInf FPosInf = True"
| "float_eq FNegInf FNegInf = True"
| "float_eq _ _ = False"

fun py_eq :: "cell \<Rightarrow> cell \<Rightarrow> bool" where
  "py_eq CNone CNone = True"
| "py_eq (CInt i) (CInt j) = (i = j)"
| "py_eq (CInt i) (CFloat f) = float_eq (FNum (of_int i)) f"
| "py_eq (CFloat f) (CInt i) = float_eq f (FNum (of_int i))"
| "py_eq (CFloat f) (CFloat g) = float_eq f g"
| "py_eq (CStr s) (CStr t) = (s = t)"
| "py_eq _ _ = False"

definition py_ne :: "cell \<Rightarrow> cell \<Rightarrow> bool" where
  "py_ne a b = (\<not> py_eq a b)"

text \<open>\<open>x in row\<close> and \<open>row.index(x)\<close>.\<close>

definition py_in :: "cell \<Rightarrow> row \<Rightarrow> bool" where
  "py_in x row = list_ex (\<lambda>c. py_eq c x) row"

fun py_index_from :: "row \<Rightarrow> cell \<Rightarrow> nat \<Rightarrow> nat option" where
  "py_index_from [] x i = None"
| "py_index_from (c # cs) x i = (if py_eq c x then Some i else py_index_from cs x (Suc i))"

definition py_index :: "row \<Rightarrow> cell \<Rightarrow> nat option" where
  "py_index row x = py_index_from row x 0"

text \<open>
  A \<open>dict\<close> keyed by cell values, as an association list in insertion order: storing under
  a key that is already present keeps the key and its position and replaces the value.
\<close>

fun dict_get :: "(cell \<times> 'v) list \<Rightarrow> cell \<Rightarrow> 'v option" where
  "dict_get [] k = None"
| "dict_get ((k', v') # d) k = (if py_eq k' k then Some v' else dict_get d k)"

fun dict_set :: "(cell \<times> 'v) list \<Rightarrow> cell \<Rightarrow> 'v \<Rightarrow> (cell \<times> 'v) list" where
  "dict_set [] k v = [(k, v)]"
| "dict_set ((k', v') # d) k v =
     (if py_eq k' k then (k', v) # d else (k', v') # dict_set d k v)"

text \<open>\<open>str(n)\<close> for a natural number and \<open>sep.join(xs)\<close>.\<close>

fun str_nat :: "nat \<Rightarrow> string" where
  "str_nat n =
     (if n < 10 then [char_of (of_char CHR ''0'' + n)]
      else str_nat (n div 10) @ [char_of (of_char CHR ''0'' + n mod 10)])"

declare str_nat.simps [simp del]

fun join :: "string \<Rightarrow> string list \<Rightarrow> string" where
  "join sep [] = []"
| "join sep [x] = x"
| "join sep (x # y # ys) = x @ sep @ join sep (y # ys)"

section \<open>Failures\<close>

text \<open>
  An exception raised with a message built by \<open>fmt % args\<close> is kept as the format string
  and its arguments: an argument is a string or a cell value (whose \<open>str()\<close> is left
  unapplied). The other constructors are the built-in exceptions the code can run into.
\<close>

datatype fmtarg = AStr string | ACell cell

datatype error =
    Exception string "fmtarg list"
  | IndexError
  | KeyError "string option"
  | ValueError
  | TypeError
  | AttributeError
  | UnboundLocalError
  | BadZipFile
  | ParseError

section \<open>The table extractor (habitat_network_algorithm.py)\<close>

definition CellRef :: "nat \<Rightarrow> nat \<Rightarrow> string" where
  "CellRef x y = char_of (of_char CHR ''A'' + x) # str_nat (y + 1)"

definition BIOTOPE_CODE_HDR :: string where
  "BIOTOPE_CODE_HDR = ''BiotopeCode''"

text \<open>A parameter that is one name or a list of names (\<open>isinstance(x, list)\<close>).\<close>

datatype name_or_nameList = Name string | Names "string list"

definition names_of :: "name_or_nameList \<Rightarrow> string list" where
  "names_of x = (case x of Names ns \<Rightarrow> ns | Name n \<Rightarrow> [n])"

definition NAME_PARAM :: string where
  "NAME_PARAM = ''Network name''"

definition DISPERSAL_PARAM :: string where
  "DISPERSAL_PARAM = ''Average dispersal distance (metres)''"

definition NETWORK_THRESHOLD_PARAM :: "string list" where
  "NETWORK_THRESHOLD_PARAM = [''Network threshold'', ''Minimum dispersal probability'']"

definition PARAMS :: "name_or_nameList list" where
  "PARAMS = [Name NAME_PARAM, Name DISPERSAL_PARAM, Names NETWORK_THRESHOLD_PARAM]"

definition QUALITY_COLUMN :: string where
  "QUALITY_COLUMN = ''Quality''"

definition SOURCE_COLUMN :: "string list" where
  "SOURCE_COLUMN = [''Source'', ''Reproduction'']"

definition FRICTION_COLUMN :: string where
  "FRICTION_COLUMN = ''Friction''"

definition COLUMNS :: "name_or_nameList list" where
  "COLUMNS = [Name QUALITY_COLUMN, Names SOURCE_COLUMN, Name FRICTION_COLUMN]"

record ParameterSet =
  parameters :: "(cell \<times> cell) list"
  columns :: "(cell \<times> cell list) list"

record BatchParameters =
  biotopeCodes :: "cell list"
  parameterSets :: "ParameterSet list"

subsection \<open>ParameterSet.parameter and ParameterSet.column\<close>



text \<open>
  After the loop the code raises with \<open>name[0]\<close>, where \<open>name\<close> is the loop variable: the
  last name tried. It is unbound when the list is empty, and indexing an empty name fails.
\<close>

definition missing_after_loop :: "string \<Rightarrow> string list \<Rightarrow> error" where
  "missing_after_loop fmt names =
     (if names = [] then UnboundLocalError
      else if last names = [] then IndexError
      else Exception fmt [AStr [hd (last names)]])"



subsection \<open>columnValues\<close>

text \<open>
  \<open>for i in range(row_count)\<close>: the row read is \<open>r = first_row + i\<close>, \<open>k\<close> counts the rows
  still to read and \<open>vals\<close> is the list built so far.
\<close>

fun columnValues_loop :: "grid \<Rightarrow> nat \<Rightarrow> nat \<Rightarrow> nat \<Rightarrow> cell list \<Rightarrow> error + cell list" where
  "columnValues_loop rows column_index r 0 vals = Inr vals"
| "columnValues_loop rows column_index r (Suc k) vals =
     (if length rows \<le> r then Inl IndexError
      else
        let row = rows ! r in
        if length row \<le> column_index
           \<or> (\<not> truthy (row ! column_index) \<and> py_ne (CInt 0) (row ! column_index))
        then Inl (Exception ''Value expected in cell %s'' [AStr (CellRef column_index r)])
        else columnValues_loop rows column_index (Suc r) k (vals @ [row ! column_index]))"

definition columnValues :: "grid \<Rightarrow> nat \<Rightarrow> nat \<Rightarrow> nat \<Rightarrow> error + cell list" where
  "columnValues rows column_index first_row row_count =
     columnValues_loop rows column_index first_row row_count []"

subsection \<open>The steps of loadBatchParameters on the grid\<close>

text \<open>The truth value of an index that is \<open>None\<close> until found: \<open>None\<close> and \<open>0\<close> are false.\<close>

fun truthy_index :: "nat option \<Rightarrow> bool" where
  "truthy_index None = False"
| "truthy_index (Some i) = (i \<noteq> 0)"

text \<open>\<open>for i, row in enumerate(rows): if BIOTOPE_CODE_HDR in row: headerRowIndex = i; break\<close>\<close>

fun find_header_row :: "grid \<Rightarrow> nat \<Rightarrow> nat option" where
  "find_header_row [] i = None"
| "find_header_row (row # rows) i =
     (if py_in (CStr BIOTOPE_CODE_HDR) row then Some i else find_header_row rows (Suc i))"

text \<open>
  The search for the header column over the rows above the header row. The inner loop
  stores the first column of the row whose cell equals the name label; the outer loop
  stops when the stored index is true, so an index \<open>0\<close> is kept but does not stop it.
\<close>

fun find_header_column :: "nat option \<Rightarrow> grid \<Rightarrow> nat option" where
  "find_header_column headerColumnIndex [] = headerColumnIndex"
| "find_header_column headerColumnIndex (row # rows) =
     (let headerColumnIndex' =
            (case py_index row (CStr NAME_PARAM) of
               Some column_index \<Rightarrow> Some column_index
             | None \<Rightarrow> headerColumnIndex)
      in if truthy_index headerColumnIndex' then headerColumnIndex'
         else find_header_column headerColumnIndex' rows)"

text \<open>
  Building \<open>header_to_row_map\<close> over the rows above the header row (\<open>rows_above\<close>, the row
  at hand has index \<open>row_index\<close>). The guard is \<open>len(row) >= headerColumnIndex\<close>, so a
  row of exactly \<open>headerColumnIndex\<close> cells is indexed out of range.
\<close>

fun header_map_loop :: "nat \<Rightarrow> grid \<Rightarrow> nat \<Rightarrow> (cell \<times> nat) list \<Rightarrow> error + (cell \<times> nat) list" where
  "header_map_loop headerColumnIndex [] row_index m = Inr m"
| "header_map_loop headerColumnIndex (row # rows_above) row_index m =
     (if headerColumnIndex \<le> length row then
        (if length row \<le> headerColumnIndex then Inl IndexError
         else
           let header_name = row ! headerColumnIndex in
           header_map_loop headerColumnIndex rows_above (Suc row_index)
             (if truthy header_name then dict_set m header_name row_index else m))
      else header_map_loop headerColumnIndex rows_above (Suc row_index) m)"

text \<open>\<open>for header in row_headers: row = d.get(header); if row is not None: break\<close>\<close>

fun get_first :: "(cell \<times> 'v) list \<Rightarrow> string list \<Rightarrow> 'v option" where
  "get_first d [] = None"
| "get_first d (header # headers) =
     (case dict_get d (CStr header) of
        Some v \<Rightarrow> Some v
      | None \<Rightarrow> get_first d headers)"

definition row_header_error :: "string list \<Rightarrow> error" where
  \<open>row_header_error row_headers =
     (if length row_headers = 1
      then Exception ''Row header "%s" not found.'' [AStr (row_headers ! 0)]
      else Exception ''None of the following row headers were found: "%s"''
             [AStr (join ''", "'' row_headers)])\<close>

fun check_row_headers :: "(cell \<times> nat) list \<Rightarrow> name_or_nameList list \<Rightarrow> error + unit" where
  "check_row_headers m [] = Inr ()"
| "check_row_headers m (row_header_or_headers # rest) =
     (let row_headers = names_of row_header_or_headers in
      case get_first m row_headers of
        None \<Rightarrow> Inl (row_header_error row_headers)
      | Some row \<Rightarrow> check_row_headers m rest)"

text \<open>
  \<open>for param, row_index in header_to_row_map.items()\<close>: one scalar per row header at the
  current column.
\<close>

fun read_parameters :: "grid \<Rightarrow> nat \<Rightarrow> (cell \<times> nat) list \<Rightarrow> (cell \<times> cell) list \<Rightarrow> error + (cell \<times> cell) list" where
  "read_parameters rows current_column_index [] ps = Inr ps"
| "read_parameters rows current_column_index ((param, row_index) # items) ps =
     (if length rows \<le> row_index then Inl IndexError
      else
        let row = rows ! row_index;
            v = (if current_column_index < length row then row ! current_column_index else CNone)
        in if \<not> truthy v
           then Inl (Exception ''Expected %s value in cell %s''
                       [ACell param, AStr (CellRef current_column_index row_index)])
           else read_parameters rows current_column_index items (dict_set ps param v))"

text \<open>
  The inner \<open>while\<close> loop that reads the data columns of one group. It returns the column
  index it stopped at together with the \<open>columns\<close> dictionary.
\<close>

function read_columns :: "grid \<Rightarrow> row \<Rightarrow> row \<Rightarrow> nat \<Rightarrow> nat \<Rightarrow> nat \<Rightarrow> (cell \<times> cell list) list
    \<Rightarrow> error + (nat \<times> (cell \<times> cell list) list)" where
  "read_columns rows headerRow name_row first_row n current_column_index cols =
     (if current_column_index < length headerRow \<and> truthy (headerRow ! current_column_index) then
        (case columnValues rows current_column_index first_row n of
           Inl e \<Rightarrow> Inl e
         | Inr vals \<Rightarrow>
             let cols' = dict_set cols (headerRow ! current_column_index) vals;
                 next_index = current_column_index + 1
             in if length name_row \<le> next_index \<or> truthy (name_row ! next_index)
                then Inr (next_index, cols')
                else read_columns rows headerRow name_row first_row n next_index cols')
      else Inr (current_column_index, cols))"
  by pat_completeness auto
termination
  by (relation "measure (\<lambda>(rows, headerRow, name_row, first_row, n, c, cols). length headerRow - c)") auto

declare read_columns.simps [simp del]

definition column_error :: "string list \<Rightarrow> cell \<Rightarrow> error" where
  \<open>column_error column_names network =
     (if length column_names = 1
      then Exception ''Column "%s" not found for network "%s".''
             [AStr (column_names ! 0), ACell network]
      else Exception ''None of the following columns were found for network "%s": "%s"''
             [ACell network, AStr (join ''", "'' column_names)])\<close>

text \<open>
  The check that every required column was read. The message reads
  \<open>parameters[NAME_PARAM]\<close>, a lookup that raises \<open>KeyError\<close> on a missing key.
\<close>

fun check_columns :: "(cell \<times> cell list) list \<Rightarrow> (cell \<times> cell) list \<Rightarrow> name_or_nameList list
    \<Rightarrow> error + unit" where
  "check_columns cols ps [] = Inr ()"
| "check_columns cols ps (column_name_or_names # rest) =
     (let column_names = names_of column_name_or_names in
      case get_first cols column_names of
        None \<Rightarrow>
          (case dict_get ps (CStr NAME_PARAM) of
             None \<Rightarrow> Inl (KeyError (Some NAME_PARAM))
           | Some network \<Rightarrow> Inl (column_error column_names network))
      | Some c \<Rightarrow> check_columns cols ps rest)"

text \<open>
  The outer \<open>while\<close> loop: one parameter set per group. \<open>name_row\<close> of the source is
  assigned in the loop over \<open>header_to_row_map\<close>, which holds the name label when this
  loop is reached, to the same row as \<open>network_name_row\<close>.
\<close>

function read_parameter_sets :: "grid \<Rightarrow> row \<Rightarrow> row \<Rightarrow> (cell \<times> nat) list \<Rightarrow> nat \<Rightarrow> nat \<Rightarrow> nat
    \<Rightarrow> ParameterSet list \<Rightarrow> error + ParameterSet list" where
  "read_parameter_sets rows headerRow network_name_row header_to_row_map first_row n
       current_column_index sets =
     (if current_column_index < length network_name_row
         \<and> current_column_index < length headerRow
         \<and> truthy (headerRow ! current_column_index) then
        (case read_parameters rows current_column_index header_to_row_map [] of
           Inl e \<Rightarrow> Inl e
         | Inr ps \<Rightarrow>
            (case read_columns rows headerRow network_name_row first_row n
                    current_column_index [] of
               Inl e \<Rightarrow> Inl e
             | Inr (next_index, cols) \<Rightarrow>
                (case check_columns cols ps COLUMNS of
                   Inl e \<Rightarrow> Inl e
                 | Inr u \<Rightarrow>
                     read_parameter_sets rows headerRow network_name_row header_to_row_map
                       first_row n next_index
                       (sets @ [\<lparr>parameters = ps, columns = cols\<rparr>]))))
      else Inr sets)"
  by pat_completeness auto
termination
proof (relation "measure (\<lambda>(rows, headerRow, nr, m, first_row, n, c, sets). length headerRow - c)",
    goal_cases)
  case 1
  show ?case by simp
next
  case (2 rows headerRow nr m first_row n c sets ps res next_index cols u)
  have mono: "c' \<le> k" if "read_columns rows headerRow nr first_row n c' cs = Inr (k, cs')"
    for c' cs k cs'
    using that
  proof (induction rows headerRow nr first_row n c' cs rule: read_columns.induct)
    case (1 rows headerRow name_row first_row n c0 cols0)
    show ?case
    proof (cases "c0 < length headerRow \<and> truthy (headerRow ! c0)")
      case False
      with "1.prems" show ?thesis by (simp add: read_columns.simps)
    next
      case True
      then obtain vals where cv: "columnValues rows c0 first_row n = Inr vals"
        using "1.prems" by (cases "columnValues rows c0 first_row n") (auto simp: read_columns.simps)
      show ?thesis
      proof (cases "length name_row \<le> c0 + 1 \<or> truthy (name_row ! (c0 + 1))")
        case stop: True
        with True cv "1.prems" show ?thesis
          by (auto simp: read_columns.simps [of rows headerRow name_row first_row n c0] Let_def)
      next
        case go: False
        with True cv "1.prems"
        have "read_columns rows headerRow name_row first_row n (c0 + 1)
                (dict_set cols0 (headerRow ! c0) vals) = Inr (k, cs')"
          by (auto simp: read_columns.simps [of rows headerRow name_row first_row n c0] Let_def)
        with "1.IH" [OF True cv refl refl] go have "c0 + 1 \<le> k" by auto
        then show ?thesis by simp
      qed
    qed
  qed
  from 2 have step: "c < next_index"
  proof -
    from 2 have cond: "c < length headerRow" "truthy (headerRow ! c)" by auto
    from 2 have rc: "read_columns rows headerRow nr first_row n c [] = Inr (next_index, cols)"
      by auto
    from cond obtain vals where cv: "columnValues rows c first_row n = Inr vals"
      using rc by (cases "columnValues rows c first_row n") (auto simp: read_columns.simps)
    show ?thesis
    proof (cases "length nr \<le> c + 1 \<or> truthy (nr ! (c + 1))")
      case True
      with cond cv rc show ?thesis
        by (auto simp: read_columns.simps [of rows headerRow nr first_row n c] Let_def)
    next
      case False
      with cond cv rc
      have "read_columns rows headerRow nr first_row n (c + 1)
              (dict_set [] (headerRow ! c) vals) = Inr (next_index, cols)"
        by (auto simp: read_columns.simps [of rows headerRow nr first_row n c] Let_def)
      from mono [OF this] show ?thesis by simp
    qed
  qed
  from 2 step show ?case by auto
qed

declare read_parameter_sets.simps [simp del]

subsection \<open>loadBatchParameters, from the loaded grid on\<close>

text \<open>
  The part of \<open>_loadBatchParameters\<close> after \<open>rows = workbook.loadSheetData(sheet_index)\<close>.
  The two \<open>if not index\<close> tests raise for an index that is \<open>None\<close> and for the index \<open>0\<close>.
\<close>

definition loadBatchParameters_rows :: "grid \<Rightarrow> error + BatchParameters" where
  \<open>loadBatchParameters_rows rows =
     (case find_header_row rows 0 of
        None \<Rightarrow> Inl (Exception ''Column header "%s" not found.'' [AStr BIOTOPE_CODE_HDR])
      | Some headerRowIndex \<Rightarrow>
     if headerRowIndex = 0
     then Inl (Exception ''Column header "%s" not found.'' [AStr BIOTOPE_CODE_HDR])
     else
     let headerRow = rows ! headerRowIndex in
     (case find_header_column None (take headerRowIndex rows) of
        None \<Rightarrow> Inl (Exception ''Row header "%s" not found.'' [AStr NAME_PARAM])
      | Some headerColumnIndex \<Rightarrow>
     if headerColumnIndex = 0
     then Inl (Exception ''Row header "%s" not found.'' [AStr NAME_PARAM])
     else
     (case header_map_loop headerColumnIndex (take headerRowIndex rows) 0 [] of
        Inl e \<Rightarrow> Inl e
      | Inr header_to_row_map \<Rightarrow>
     (case py_index headerRow (CStr BIOTOPE_CODE_HDR) of
        None \<Rightarrow> Inl ValueError
      | Some code_column \<Rightarrow>
     (case columnValues rows code_column (headerRowIndex + 1)
             (length rows - headerRowIndex - 1) of
        Inl e \<Rightarrow> Inl e
      | Inr codes \<Rightarrow>
     (case check_row_headers header_to_row_map PARAMS of
        Inl e \<Rightarrow> Inl e
      | Inr u \<Rightarrow>
     (case dict_get header_to_row_map (CStr NAME_PARAM) of
        None \<Rightarrow> Inl (KeyError (Some NAME_PARAM))
      | Some name_row_index \<Rightarrow>
     if length rows \<le> name_row_index then Inl IndexError
     else
     (case read_parameter_sets rows headerRow (rows ! name_row_index) header_to_row_map
             (headerRowIndex + 1) (length codes) (headerColumnIndex + 1) [] of
        Inl e \<Rightarrow> Inl e
      | Inr sets \<Rightarrow> Inr \<lparr>biotopeCodes = codes, parameterSets = sets\<rparr>))))))))\<close>

subsection \<open>Notions of the specification used to state the properties\<close>

text \<open>
  A cell value is non-empty in the sense of the specification when it is true or a numeric
  zero; \<open>cell_given rows x y\<close> says that row \<open>y\<close> reaches column \<open>x\<close> and holds a
  non-empty value there.
\<close>

definition is_numeric_zero :: "cell \<Rightarrow> bool" where
  "is_numeric_zero v = (v = CInt 0 \<or> v = CFloat (FNum 0))"

definition non_empty :: "cell \<Rightarrow> bool" where
  "non_empty v = (truthy v \<or> is_numeric_zero v)"

definition cell_given :: "grid \<Rightarrow> nat \<Rightarrow> nat \<Rightarrow> bool" where
  "cell_given rows x y = (x < length (rows ! y) \<and> non_empty (rows ! y ! x))"

text \<open>The number a string of decimal digits denotes.\<close>

definition decimal_value :: "string \<Rightarrow> nat" where
  "decimal_value ds = foldl (\<lambda>a d. 10 * a + (of_char d - of_char CHR ''0'')) 0 ds"

definition is_digit :: "char \<Rightarrow> bool" where
  "is_digit d = (of_char CHR ''0'' \<le> (of_char d :: nat) \<and> (of_char d :: nat) \<le> of_char CHR ''9'')"

text \<open>Every column of a \<open>columns\<close> dictionary has \<open>n\<close> entries.\<close>

definition columns_have_length :: "nat \<Rightarrow> (cell \<times> cell list) list \<Rightarrow> bool" where
  "columns_have_length n cols = list_all (\<lambda>kv. length (snd kv) = n) cols"

text \<open>
  A literal label matches in a dictionary when the key is present (\<open>has_key\<close>) and, for
  \<open>ParameterSet.parameter\<close>, holds a value other than \<open>None\<close> (\<open>has_value\<close>).
\<close>

definition has_key :: "(cell \<times> 'v) list \<Rightarrow> string \<Rightarrow> bool" where
  "has_key d name = (dict_get d (CStr name) \<noteq> None)"


section \<open>The spreadsheet reader (xl/workbook.py)\<close>

subsection \<open>The built-ins it calls: list indexing, int() and float()\<close>

text \<open>
  \<open>xs[i]\<close> and \<open>xs[i] = v\<close> with an integer index: \<open>py_position\<close> is the place an index
  \<open>i\<close> denotes in a list of \<open>len\<close> elements, where \<open>-1\<close> is the last one.
\<close>

definition py_position :: "nat \<Rightarrow> int \<Rightarrow> nat option" where
  "py_position len i =
     (if 0 \<le> i \<and> i < int len then Some (nat i)
      else if i < 0 \<and> - int len \<le> i then Some (nat (int len + i))
      else None)"

definition py_list_get :: "'a list \<Rightarrow> int \<Rightarrow> error + 'a" where
  "py_list_get xs i =
     (case py_position (length xs) i of
        None \<Rightarrow> Inl IndexError
      | Some k \<Rightarrow> Inr (xs ! k))"

definition py_list_set :: "'a list \<Rightarrow> int \<Rightarrow> 'a \<Rightarrow> error + 'a list" where
  "py_list_set xs i v =
     (case py_position (length xs) i of
        None \<Rightarrow> Inl IndexError
      | Some k \<Rightarrow> Inr (xs[k := v]))"

text \<open>
  \<open>int(s)\<close> and \<open>float(s)\<close> on a string strip white space at both ends (among the code
  points below 256: tab, line feed, vertical tab, form feed, carriage return, space,
  next-line and no-break space).
\<close>

definition is_space :: "char \<Rightarrow> bool" where
  "is_space c = ((of_char c :: nat) \<in> {9, 10, 11, 12, 13, 32, 133, 160})"

definition py_strip :: "string \<Rightarrow> string" where
  "py_strip s = rev (dropWhile is_space (rev (dropWhile is_space s)))"

definition is_sign :: "char \<Rightarrow> bool" where
  "is_sign c = (c = CHR ''+'' \<or> c = CHR ''-'')"

text \<open>
  \<open>int(s)\<close>, base 10: an optional sign, then decimal digits in which single underscores
  may separate digits. \<open>None\<close> stands for the \<open>ValueError\<close>. (The limit that newer
  interpreters put on the number of digits is not modelled.)
\<close>

fun no_double_underscore :: "string \<Rightarrow> bool" where
  "no_double_underscore (a # b # cs) =
     (if a = CHR ''_'' \<and> b = CHR ''_'' then False else no_double_underscore (b # cs))"
| "no_double_underscore cs = True"

definition int_digits_ok :: "string \<Rightarrow> bool" where
  "int_digits_ok ds =
     (ds \<noteq> [] \<and> hd ds \<noteq> CHR ''_'' \<and> last ds \<noteq> CHR ''_''
      \<and> list_all (\<lambda>c. is_digit c \<or> c = CHR ''_'') ds \<and> no_double_underscore ds)"

definition digits_value :: "string \<Rightarrow> nat" where
  "digits_value ds = decimal_value (filter is_digit ds)"

definition py_int :: "string \<Rightarrow> int option" where
  "py_int s =
     (let t = py_strip s;
          neg = (t \<noteq> [] \<and> hd t = CHR ''-'');
          ds = (if t \<noteq> [] \<and> is_sign (hd t) then tl t else t)
      in if int_digits_ok ds
         then Some (if neg then - int (digits_value ds) else int (digits_value ds))
         else None)"

text \<open>
  The double nearest to a rational number, ties to even; a magnitude that rounds to
  \<open>2 ^ 1024\<close> or more overflows to an infinity, as \<open>float()\<close> does.
\<close>

function bitlen :: "int \<Rightarrow> int" where
  "bitlen n = (if n \<le> 0 then 0 else 1 + bitlen (n div 2))"
  by pat_completeness auto
termination
  by (relation "measure nat") auto

declare bitlen.simps [simp del]

definition pow2 :: "int \<Rightarrow> rat" where
  "pow2 e = (if 0 \<le> e then 2 ^ nat e else 1 / 2 ^ nat (- e))"

definition floor_log2 :: "rat \<Rightarrow> int" where
  "floor_log2 a =
     (let k = bitlen (fst (quotient_of a)) - bitlen (snd (quotient_of a))
      in if pow2 k \<le> a then k else k - 1)"

definition round_half_even :: "rat \<Rightarrow> int" where
  "round_half_even q =
     (let f = \<lfloor>q\<rfloor>; d = q - of_int f
      in if d < 1 / 2 then f else if 1 / 2 < d then f + 1 else if even f then f else f + 1)"

definition double_of_rat :: "rat \<Rightarrow> pyfloat" where
  "double_of_rat q =
     (if q = 0 then FNum 0
      else
        let a = \<bar>q\<bar>;
            e = max (floor_log2 a - 52) (- 1074);
            v = of_int (round_half_even (a / pow2 e)) * pow2 e
        in if pow2 1024 \<le> v then (if q < 0 then FNegInf else FPosInf)
           else FNum (if q < 0 then - v else v))"

text \<open>
  \<open>float(s)\<close>: every underscore must stand between two digits and is dropped; then an
  optional sign and either \<open>inf\<close>, \<open>infinity\<close> or \<open>nan\<close> in any case, or a decimal number
  with an optional fraction and an optional exponent.
\<close>

fun float_underscores_ok :: "char \<Rightarrow> string \<Rightarrow> bool" where
  "float_underscores_ok prev [] = (prev \<noteq> CHR ''_'')"
| "float_underscores_ok prev (c # cs) =
     (if c = CHR ''_'' then (if is_digit prev then float_underscores_ok c cs else False)
      else if prev = CHR ''_'' then (if is_digit c then float_underscores_ok c cs else False)
      else float_underscores_ok c cs)"

definition to_lower :: "char \<Rightarrow> char" where
  "to_lower c =
     (if of_char CHR ''A'' \<le> (of_char c :: nat) \<and> (of_char c :: nat) \<le> of_char CHR ''Z''
      then char_of ((of_char c :: nat) + 32) else c)"

definition parse_exponent :: "string \<Rightarrow> int option" where
  "parse_exponent s =
     (if s = [] then Some 0
      else if to_lower (hd s) \<noteq> CHR ''e'' then None
      else
        let r = tl s;
            neg = (r \<noteq> [] \<and> hd r = CHR ''-'');
            ds = (if r \<noteq> [] \<and> is_sign (hd r) then tl r else r)
        in if ds \<noteq> [] \<and> list_all is_digit ds
           then Some (if neg then - int (decimal_value ds) else int (decimal_value ds))
           else None)"

definition parse_decimal :: "string \<Rightarrow> rat option" where
  "parse_decimal s =
     (let ip = takeWhile is_digit s;
          r1 = dropWhile is_digit s;
          fp = (if r1 \<noteq> [] \<and> hd r1 = CHR ''.'' then takeWhile is_digit (tl r1) else []);
          r2 = (if r1 \<noteq> [] \<and> hd r1 = CHR ''.'' then dropWhile is_digit (tl r1) else r1)
      in if ip @ fp = [] then None
         else (case parse_exponent r2 of
                 None \<Rightarrow> None
               | Some ex \<Rightarrow>
                   let m = of_nat (decimal_value (ip @ fp)); e10 = ex - int (length fp)
                   in Some (if 0 \<le> e10 then m * 10 ^ nat e10 else m / 10 ^ nat (- e10))))"

definition py_float :: "string \<Rightarrow> pyfloat option" where
  "py_float s =
     (let t = py_strip s in
      if \<not> float_underscores_ok (CHR 0x00) t then None
      else
        let u = filter (\<lambda>c. c \<noteq> CHR ''_'') t;
            neg = (u \<noteq> [] \<and> hd u = CHR ''-'');
            b = (if u \<noteq> [] \<and> is_sign (hd u) then tl u else u);
            w = map to_lower b
        in if w = ''inf'' \<or> w = ''infinity'' then Some (if neg then FNegInf else FPosInf)
           else if w = ''nan'' then Some FNaN
           else (case parse_decimal b of
                   None \<Rightarrow> None
                 | Some q \<Rightarrow> Some (double_of_rat (if neg then - q else q))))"

subsection \<open>ValueFromString\<close>

text \<open>
  The argument is the text of a \<open><v>\<close> element, \<open>None\<close> when the element is empty: then
  \<open>int\<close> and \<open>float\<close> both raise \<open>TypeError\<close>, the bare \<open>except\<close> clauses swallow it and
  \<open>None\<close> is returned.
\<close>

definition ValueFromString :: "string option \<Rightarrow> cell" where
  "ValueFromString s =
     (case s of
        None \<Rightarrow> CNone
      | Some txt \<Rightarrow>
          (case py_int txt of
             Some i \<Rightarrow> CInt i
           | None \<Rightarrow>
               (case py_float txt of
                  Some f \<Rightarrow> CFloat f
                | None \<Rightarrow> CStr txt)))"

subsection \<open>XML documents and the zip archive\<close>

text \<open>
  An element of a parsed document, as \<open>xml.etree.ElementTree\<close> gives it: the tag with its
  namespace in braces, the attributes, the text before the first child (\<open>None\<close> when
  there is none) and the child elements in document order.
\<close>

datatype xml = Element (xml_tag: string) (xml_attrib: "(string \<times> string) list")
  (xml_text: "string option") (xml_children: "xml list")

text \<open>\<open>e.attrib.get(k)\<close> (also \<open>e.get(k)\<close>), \<open>e.find(tag)\<close> and \<open>e.findall(tag)\<close>.\<close>

definition attrib_get :: "xml \<Rightarrow> string \<Rightarrow> string option" where
  "attrib_get e k = map_of (xml_attrib e) k"

definition xml_find :: "xml \<Rightarrow> string \<Rightarrow> xml option" where
  "xml_find e t = find (\<lambda>c. xml_tag c = t) (xml_children e)"

definition xml_findall :: "xml \<Rightarrow> string \<Rightarrow> xml list" where
  "xml_findall e t = filter (\<lambda>c. xml_tag c = t) (xml_children e)"

text \<open>
  The zip archive, by member name: no such member (\<open>None\<close>), a member that is not
  well-formed XML (\<open>Some None\<close>), or a member with the root element of its document.
\<close>

type_synonym archive = "string \<Rightarrow> xml option option"

definition NS_MAIN :: string where
  "NS_MAIN = ''http://schemas.openxmlformats.org/spreadsheetml/2006/main''"

definition NS_R :: string where
  "NS_R = ''http://schemas.openxmlformats.org/officeDocument/2006/relationships''"

definition qname :: "string \<Rightarrow> string \<Rightarrow> string" where
  "qname ns local = ''{'' @ ns @ ''}'' @ local"

subsection \<open>Workbook\<close>

record SheetDef =
  sheet_name :: "string option"
  sheet_rid :: "string option"

record Workbook =
  wb_archive :: archive
  wb_rels :: "string option \<Rightarrow> string option option"
  wb_sheetDefs :: "SheetDef list"
  wb_sharedStrings :: "string option list"

definition loadXml :: "archive \<Rightarrow> string \<Rightarrow> error + xml" where
  "loadXml ar path =
     (case ar path of
        None \<Rightarrow> Inl (KeyError (Some path))
      | Some None \<Rightarrow> Inl ParseError
      | Some (Some root_node) \<Rightarrow> Inr root_node)"

definition stripNameSpace :: "string \<Rightarrow> string" where
  "stripNameSpace t =
     (if CHR ''}'' \<in> set t then rev (takeWhile (\<lambda>c. c \<noteq> CHR ''}'') (rev t)) else t)"

text \<open>\<open>_loadRels\<close>: a dictionary from the \<open>Id\<close> to the \<open>Target\<close> of each relationship.\<close>

fun rels_loop :: "xml list \<Rightarrow> (string option \<Rightarrow> string option option)
    \<Rightarrow> (string option \<Rightarrow> string option option)" where
  "rels_loop [] rels = rels"
| "rels_loop (child # rest) rels =
     rels_loop rest
       (if ''Relationship'' = stripNameSpace (xml_tag child)
        then rels(attrib_get child ''Id'' \<mapsto> attrib_get child ''Target'')
        else rels)"

definition loadRels :: "archive \<Rightarrow> error + (string option \<Rightarrow> string option option)" where
  "loadRels ar =
     (case loadXml ar ''xl/_rels/workbook.xml.rels'' of
        Inl e \<Rightarrow> Inl e
      | Inr root_node \<Rightarrow> Inr (rels_loop (xml_children root_node) Map.empty))"

text \<open>\<open>_loadSheetDefs\<close>: the \<open>sheet\<close> children of the \<open>sheets\<close> children of the root.\<close>

definition sheets_of :: "xml \<Rightarrow> SheetDef list" where
  "sheets_of child =
     map (\<lambda>child2. \<lparr>sheet_name = attrib_get child2 ''name'',
                      sheet_rid = attrib_get child2 (qname NS_R ''id'')\<rparr>)
       (filter (\<lambda>child2. ''sheet'' = stripNameSpace (xml_tag child2)) (xml_children child))"

definition loadSheetDefs :: "archive \<Rightarrow> error + SheetDef list" where
  "loadSheetDefs ar =
     (case loadXml ar ''xl/workbook.xml'' of
        Inl e \<Rightarrow> Inl e
      | Inr root_node \<Rightarrow>
          Inr (concat (map sheets_of
                 (filter (\<lambda>child. ''sheets'' = stripNameSpace (xml_tag child))
                    (xml_children root_node)))))"

text \<open>\<open>_loadSharedStrings\<close>: the text of the \<open>t\<close> child of every \<open>si\<close> that has one.\<close>

fun shared_strings_loop :: "xml list \<Rightarrow> string option list \<Rightarrow> string option list" where
  "shared_strings_loop [] shared_strings = shared_strings"
| "shared_strings_loop (si # rest) shared_strings =
     shared_strings_loop rest
       (case xml_find si (qname NS_MAIN ''t'') of
          Some t \<Rightarrow> shared_strings @ [xml_text t]
        | None \<Rightarrow> shared_strings)"

definition loadSharedStrings :: "archive \<Rightarrow> error + string option list" where
  "loadSharedStrings ar =
     (case loadXml ar ''xl/sharedStrings.xml'' of
        Inl e \<Rightarrow> Inl e
      | Inr root_node \<Rightarrow> Inr (shared_strings_loop (xml_findall root_node (qname NS_MAIN ''si'')) []))"

text \<open>
  \<open>Workbook.__init__\<close> and \<open>OpenWorkbook\<close>. The argument stands for the file at \<open>path\<close>:
  \<open>None\<close> when \<open>zipfile.ZipFile\<close> cannot open it as a zip archive.
\<close>

definition OpenWorkbook :: "archive option \<Rightarrow> error + Workbook" where
  "OpenWorkbook pkg =
     (case pkg of
        None \<Rightarrow> Inl BadZipFile
      | Some ar \<Rightarrow>
     (case loadRels ar of
        Inl e \<Rightarrow> Inl e
      | Inr rels \<Rightarrow>
     (case loadSheetDefs ar of
        Inl e \<Rightarrow> Inl e
      | Inr sheet_defs \<Rightarrow>
     (case loadSharedStrings ar of
        Inl e \<Rightarrow> Inl e
      | Inr shared_strings \<Rightarrow>
          Inr \<lparr>wb_archive = ar, wb_rels = rels, wb_sheetDefs = sheet_defs,
               wb_sharedStrings = shared_strings\<rparr>))))"

definition sheetCount :: "Workbook \<Rightarrow> nat" where
  "sheetCount self = length (wb_sheetDefs self)"

definition sheetName :: "Workbook \<Rightarrow> int \<Rightarrow> error + string option" where
  "sheetName self index =
     (case py_list_get (wb_sheetDefs self) index of
        Inl e \<Rightarrow> Inl e
      | Inr sd \<Rightarrow> Inr (sheet_name sd))"

text \<open>\<open>_sheetPath\<close>: \<open>'xl/' + self._rels[self._sheetDefs[index].rid]\<close>.\<close>

definition sheetPath :: "Workbook \<Rightarrow> int \<Rightarrow> error + string" where
  "sheetPath self index =
     (case py_list_get (wb_sheetDefs self) index of
        Inl e \<Rightarrow> Inl e
      | Inr sd \<Rightarrow>
          (case wb_rels self (sheet_rid sd) of
             None \<Rightarrow> Inl (KeyError (sheet_rid sd))
           | Some None \<Rightarrow> Inl TypeError
           | Some (Some target) \<Rightarrow> Inr (''xl/'' @ target)))"

text \<open>A member of the archive that is present and parses as XML.\<close>

definition member_parses :: "archive \<Rightarrow> string \<Rightarrow> bool" where
  "member_parses ar path = (case ar path of Some (Some r) \<Rightarrow> True | _ \<Rightarrow> False)"

text \<open>
  A package holding \<open>xl/workbook.xml\<close> with one sheet and the relationship part, and
  nothing else.
\<close>

definition two_part_package :: archive where
  "two_part_package path =
     (if path = ''xl/workbook.xml''
      then Some (Some (Element (qname NS_MAIN ''workbook'') [] None
             [Element (qname NS_MAIN ''sheets'') [] None
                [Element (qname NS_MAIN ''sheet'')
                   [(''name'', ''Sheet1''), (qname NS_R ''id'', ''rId1'')] None []]]))
      else if path = ''xl/_rels/workbook.xml.rels''
      then Some (Some (Element ''{http://schemas.openxmlformats.org/package/2006/relationships}Relationships'' [] None
             [Element ''{http://schemas.openxmlformats.org/package/2006/relationships}Relationship''
                [(''Id'', ''rId1''), (''Target'', ''worksheets/sheet1.xml'')] None []]))
      else None)"

subsection \<open>loadSheetData\<close>

text \<open>
  One cell element of a row. The column is \<open>ord(ref[0]) - ord('A')\<close>, an integer that may be
  negative. A cell without a \<open>v\<close> child assigns nothing. With a \<open>v\<close> child the value is
  computed first (the shared string at index \<open>int(v.text)\<close> when the type marker is
  \<open>s\<close>, \<open>ValueFromString(v.text)\<close> otherwise) and then stored with \<open>row[col] = value\<close>.
\<close>

definition shared_string_cell :: "string option \<Rightarrow> cell" where
  "shared_string_cell s = (case s of None \<Rightarrow> CNone | Some txt \<Rightarrow> CStr txt)"

definition load_cell :: "string option list \<Rightarrow> row \<Rightarrow> xml \<Rightarrow> error + row" where
  "load_cell sharedStrings row c_node =
     (case attrib_get c_node ''r'' of
        None \<Rightarrow> Inl (KeyError (Some ''r''))
      | Some ref \<Rightarrow>
          if ref = [] then Inl IndexError
          else
            let col = int (of_char (hd ref)) - int (of_char CHR ''A'');
                t = attrib_get c_node ''t''
            in (case xml_find c_node (qname NS_MAIN ''v'') of
                  None \<Rightarrow> Inr row
                | Some v_node \<Rightarrow>
                    if t = Some ''s'' then
                      (case xml_text v_node of
                         None \<Rightarrow> Inl TypeError
                       | Some txt \<Rightarrow>
                           (case py_int txt of
                              None \<Rightarrow> Inl ValueError
                            | Some i \<Rightarrow>
                                (case py_list_get sharedStrings i of
                                   Inl e \<Rightarrow> Inl e
                                 | Inr s \<Rightarrow> py_list_set row col (shared_string_cell s))))
                    else py_list_set row col (ValueFromString (xml_text v_node))))"

fun load_cells :: "string option list \<Rightarrow> row \<Rightarrow> xml list \<Rightarrow> error + row" where
  "load_cells sharedStrings row [] = Inr row"
| "load_cells sharedStrings row (c_node # rest) =
     (case load_cell sharedStrings row c_node of
        Inl e \<Rightarrow> Inl e
      | Inr row' \<Rightarrow> load_cells sharedStrings row' rest)"

text \<open>
  \<open>spans[spans.find(':') + 1:]\<close>: the text after the first colon, the whole text when
  there is no colon (\<open>find\<close> gives \<open>-1\<close>).
\<close>

definition after_colon :: "string \<Rightarrow> string" where
  "after_colon spans =
     (if CHR '':'' \<in> set spans then tl (dropWhile (\<lambda>c. c \<noteq> CHR '':'') spans) else spans)"

text \<open>
  One row element gives the pair of its declared number and its row of cells. The row
  is pre-sized with \<open>[None] * length\<close>, which is empty for a length below one.
\<close>

definition load_row :: "string option list \<Rightarrow> xml \<Rightarrow> error + (int \<times> row)" where
  "load_row sharedStrings row_node =
     (case attrib_get row_node ''spans'' of
        None \<Rightarrow> Inl (KeyError (Some ''spans''))
      | Some spans \<Rightarrow>
     (case py_int (after_colon spans) of
        None \<Rightarrow> Inl ValueError
      | Some len \<Rightarrow>
     (case load_cells sharedStrings (replicate (nat len) CNone)
             (xml_findall row_node (qname NS_MAIN ''c'')) of
        Inl e \<Rightarrow> Inl e
      | Inr row \<Rightarrow>
     (case attrib_get row_node ''r'' of
        None \<Rightarrow> Inl TypeError
      | Some r \<Rightarrow>
     (case py_int r of
        None \<Rightarrow> Inl ValueError
      | Some n \<Rightarrow> Inr (n, row))))))"

fun load_rows :: "string option list \<Rightarrow> xml list \<Rightarrow> (int \<times> row) list \<Rightarrow> error + (int \<times> row) list" where
  "load_rows sharedStrings [] raw_rows = Inr raw_rows"
| "load_rows sharedStrings (row_node # rest) raw_rows =
     (case load_row sharedStrings row_node of
        Inl e \<Rightarrow> Inl e
      | Inr r \<Rightarrow> load_rows sharedStrings rest (raw_rows @ [r]))"

text \<open>\<open>for r in raw_rows: rows[r[0] - 1] = r[1]\<close>\<close>

fun place_rows :: "grid \<Rightarrow> (int \<times> row) list \<Rightarrow> error + grid" where
  "place_rows rows [] = Inr rows"
| "place_rows rows (r # rest) =
     (case py_list_set rows (fst r - 1) (snd r) of
        Inl e \<Rightarrow> Inl e
      | Inr rows' \<Rightarrow> place_rows rows' rest)"

text \<open>
  The grid built from the row elements of the \<open>sheetData\<close> node: \<open>max\<close> of an empty list
  raises \<open>ValueError\<close>; \<open>[[]] * row_count\<close> is a list of \<open>row_count\<close> empty rows.
\<close>

definition build_grid :: "string option list \<Rightarrow> xml \<Rightarrow> error + grid" where
  "build_grid sharedStrings sheetData_node =
     (case load_rows sharedStrings (xml_findall sheetData_node (qname NS_MAIN ''row'')) [] of
        Inl e \<Rightarrow> Inl e
      | Inr raw_rows \<Rightarrow>
          if raw_rows = [] then Inl ValueError
          else
            let row_count = Max (set (map fst raw_rows))
            in place_rows (replicate (nat row_count) []) raw_rows)"

definition loadSheetData :: "Workbook \<Rightarrow> int \<Rightarrow> error + grid" where
  "loadSheetData self index =
     (case sheetPath self index of
        Inl e \<Rightarrow> Inl e
      | Inr path \<Rightarrow>
     (case loadXml (wb_archive self) path of
        Inl e \<Rightarrow> Inl e
      | Inr root_node \<Rightarrow>
     (case xml_find root_node (qname NS_MAIN ''sheetData'') of
        None \<Rightarrow> Inl AttributeError
      | Some sheetData_node \<Rightarrow> build_grid (wb_sharedStrings self) sheetData_node)))"

subsection \<open>loadBatchParameters\<close>

text \<open>
  \<open>_loadBatchParameters(path, feedback)\<close>: opens the workbook, reads the name of sheet 0
  for the progress message, loads sheet 0 and extracts from its grid.
\<close>

definition loadBatchParameters :: "archive option \<Rightarrow> error + BatchParameters" where
  "loadBatchParameters pkg =
     (case OpenWorkbook pkg of
        Inl e \<Rightarrow> Inl e
      | Inr workbook \<Rightarrow>
     (case sheetName workbook 0 of
        Inl e \<Rightarrow> Inl e
      | Inr nm \<Rightarrow>
     (case loadSheetData workbook 0 of
        Inl e \<Rightarrow> Inl e
      | Inr rows \<Rightarrow> loadBatchParameters_rows rows)))"

text \<open>The same package with a shared-strings part that holds no string.\<close>

definition three_part_package :: archive where
  "three_part_package =
     two_part_package(''xl/sharedStrings.xml'' :=
       Some (Some (Element (qname NS_MAIN ''sst'') [] None [])))"

text \<open>
  What a cell element carries: the text of its \<open>v\<close> child (\<open>None\<close> when it has no such
  child) and the column its reference denotes.
\<close>

definition value_child_text :: "xml \<Rightarrow> string option option" where
  "value_child_text c_node =
     (case xml_find c_node (qname NS_MAIN ''v'') of None \<Rightarrow> None | Some v \<Rightarrow> Some (xml_text v))"

definition cell_column :: "xml \<Rightarrow> int option" where
  "cell_column c_node =
     (case attrib_get c_node ''r'' of
        None \<Rightarrow> None
      | Some ref \<Rightarrow> if ref = [] then None
                     else Some (int (of_char (hd ref)) - int (of_char CHR ''A'')))"

definition empty_sheet_package :: archive where
  "empty_sheet_package =
     three_part_package(''xl/worksheets/sheet1.xml'' :=
       Some (Some (Element (qname NS_MAIN ''worksheet'') [] None
         [Element (qname NS_MAIN ''sheetData'') [] None []])))"

text \<open>
  The slot of a row of \<open>len\<close> cells that the reference of a cell element denotes, and
  a row element whose second and third cells carry no value.
\<close>

definition cell_slot :: "nat \<Rightarrow> xml \<Rightarrow> nat option" where
  "cell_slot len c_node =
     (case cell_column c_node of None \<Rightarrow> None | Some col \<Rightarrow> py_position len col)"

definition valueless_row :: xml where
  "valueless_row =
     Element (qname NS_MAIN ''row'') [(''r'', ''1''), (''spans'', ''1:3'')] None
       [Element (qname NS_MAIN ''c'') [(''r'', ''A1'')] None
          [Element (qname NS_MAIN ''v'') [] (Some ''5'') []],
        Element (qname NS_MAIN ''c'') [(''r'', ''B1''), (''t'', ''s'')] None [],
        Element (qname NS_MAIN ''c'') [(''r'', ''C1'')] None []]"

text \<open>
  The row that the placement loop leaves at a declared number: the last of the pairs
  with that number. Two example sheets follow: rows declared out of order with row 2
  skipped, and one number declared twice.
\<close>

definition last_declared :: "(int \<times> row) list \<Rightarrow> int \<Rightarrow> row option" where
  "last_declared raw_rows n = map_of (rev raw_rows) n"

definition numbered_row :: "string \<Rightarrow> string \<Rightarrow> string \<Rightarrow> xml" where
  "numbered_row r ref v =
     Element (qname NS_MAIN ''row'') [(''r'', r), (''spans'', ''1:2'')] None
       [Element (qname NS_MAIN ''c'') [(''r'', ref)] None
          [Element (qname NS_MAIN ''v'') [] (Some v) []]]"

definition out_of_order_sheet :: xml where
  "out_of_order_sheet =
     Element (qname NS_MAIN ''sheetData'') [] None
       [numbered_row ''3'' ''B3'' ''30'', numbered_row ''1'' ''A1'' ''10'']"

definition repeated_number_sheet :: xml where
  "repeated_number_sheet =
     Element (qname NS_MAIN ''sheetData'') [] None
       [numbered_row ''1'' ''A1'' ''10'', numbered_row ''1'' ''B1'' ''20'']"

text \<open>
  A configuration group occupying the columns \<open>c\<close> to \<open>e - 1\<close>: the name row shows a value
  at \<open>c\<close> and none at the other columns of the group, every header-row cell of the group
  is a label, every row header has a scalar at \<open>c\<close>, every data cell below is given, and
  every required column concept has one of its labels in the group.
\<close>

definition group_at :: "grid \<Rightarrow> row \<Rightarrow> row \<Rightarrow> (cell \<times> nat) list \<Rightarrow> nat \<Rightarrow> nat \<Rightarrow> nat \<Rightarrow> nat \<Rightarrow> bool" where
  "group_at rows headerRow name_row header_to_row_map first_row n c e =
     (c < e \<and> e \<le> length headerRow \<and> c < length name_row \<and> truthy (name_row ! c)
      \<and> first_row + n \<le> length rows
      \<and> list_all (\<lambda>j. truthy (headerRow ! j)) [c..<e]
      \<and> list_all (\<lambda>j. j < length name_row \<and> \<not> truthy (name_row ! j)) [Suc c..<e]
      \<and> list_all (\<lambda>pr. snd pr < length rows \<and> c < length (rows ! snd pr)
                          \<and> truthy (rows ! snd pr ! c)) header_to_row_map
      \<and> list_all (\<lambda>j. list_all (\<lambda>i. cell_given rows j (first_row + i)) [0..<n]) [c..<e]
      \<and> list_all (\<lambda>names. list_ex (\<lambda>name. list_ex (\<lambda>j. headerRow ! j = CStr name) [c..<e])
                              (names_of names)) COLUMNS)"

text \<open>
  Nothing to read at column \<open>e\<close>: the header row or the name row ends there, or the
  header-row cell is blank.
\<close>

definition group_ends :: "row \<Rightarrow> row \<Rightarrow> nat \<Rightarrow> bool" where
  "group_ends headerRow name_row e =
     (length headerRow \<le> e \<or> length name_row \<le> e \<or> \<not> truthy (headerRow ! e))"

text \<open>
  The parameter set of the group at columns \<open>c\<close> to \<open>e - 1\<close>: each row header with the cell
  of its row at column \<open>c\<close>, each label of the group with the cells of its column.
\<close>

definition expected_set :: "grid \<Rightarrow> row \<Rightarrow> (cell \<times> nat) list \<Rightarrow> nat \<Rightarrow> nat \<Rightarrow> nat \<Rightarrow> nat \<Rightarrow> ParameterSet" where
  "expected_set rows headerRow header_to_row_map first_row n c e =
     \<lparr>parameters = foldl (\<lambda>d pr. dict_set d (fst pr) (rows ! snd pr ! c)) [] header_to_row_map,
      columns = foldl (\<lambda>d j. dict_set d (headerRow ! j)
                                 (map (\<lambda>i. rows ! (first_row + i) ! j) [0..<n])) [] [c..<e]\<rparr>"

text \<open>
  The steps before the groups are read succeed: header row and header column found at
  indices other than \<open>0\<close>, row-header map built, codes read, required row headers present.
\<close>

definition table_located :: "grid \<Rightarrow> nat \<Rightarrow> nat \<Rightarrow> (cell \<times> nat) list \<Rightarrow> nat \<Rightarrow> cell list \<Rightarrow> bool" where
  "table_located rows headerRowIndex headerColumnIndex header_to_row_map name_row_index codes =
     (find_header_row rows 0 = Some headerRowIndex \<and> headerRowIndex \<noteq> 0
      \<and> find_header_column None (take headerRowIndex rows) = Some headerColumnIndex
      \<and> headerColumnIndex \<noteq> 0
      \<and> header_map_loop headerColumnIndex (take headerRowIndex rows) 0 [] = Inr header_to_row_map
      \<and> (case py_index (rows ! headerRowIndex) (CStr BIOTOPE_CODE_HDR) of
            None \<Rightarrow> False
          | Some code_column \<Rightarrow>
              columnValues rows code_column (headerRowIndex + 1)
                (length rows - headerRowIndex - 1) = Inr codes)
      \<and> check_row_headers header_to_row_map PARAMS = Inr ()
      \<and> dict_get header_to_row_map (CStr NAME_PARAM) = Some name_row_index
      \<and> name_row_index < length rows)"

text \<open>
  A table with two groups side by side, and the same table with a blank column put
  between the groups.
\<close>

definition adjacent_grid :: grid where
  "adjacent_grid =
     [[CStr [], CStr NAME_PARAM, CStr ''A'', CNone, CNone, CStr ''B'', CNone, CNone],
      [CStr [], CStr DISPERSAL_PARAM, CInt 500, CNone, CNone, CInt 300, CNone, CNone],
      [CStr [], CStr ''Network threshold'', CFloat (FNum (1 / 20)), CNone, CNone,
         CFloat (FNum (1 / 10)), CNone, CNone],
      [CStr BIOTOPE_CODE_HDR, CNone, CStr ''Quality'', CStr ''Source'', CStr ''Friction'',
         CStr ''Quality'', CStr ''Reproduction'', CStr ''Friction''],
      [CInt 11, CNone, CInt 1, CInt 0, CInt 5, CInt 2, CInt 1, CInt 7],
      [CInt 12, CNone, CInt 3, CInt 1, CInt 0, CInt 4, CInt 0, CInt 9]]"

definition spacer_grid :: grid where
  "spacer_grid = map (\<lambda>row. take 5 row @ [CNone] @ drop 5 row) adjacent_grid"

definition example_row_headers :: "(cell \<times> nat) list" where
  "example_row_headers = [(CStr NAME_PARAM, 0), (CStr DISPERSAL_PARAM, 1), (CStr ''Network threshold'', 2)]"

definition set_A :: ParameterSet where
  "set_A = \<lparr>parameters = [(CStr NAME_PARAM, CStr ''A''), (CStr DISPERSAL_PARAM, CInt 500),
                          (CStr ''Network threshold'', CFloat (FNum (1 / 20)))],
             columns = [(CStr ''Quality'', [CInt 1, CInt 3]), (CStr ''Source'', [CInt 0, CInt 1]),
                        (CStr ''Friction'', [CInt 5, CInt 0])]\<rparr>"

definition set_B :: ParameterSet where
  "set_B = \<lparr>parameters = [(CStr NAME_PARAM, CStr ''B''), (CStr DISPERSAL_PARAM, CInt 300),
                          (CStr ''Network threshold'', CFloat (FNum (1 / 10)))],
             columns = [(CStr ''Quality'', [CInt 2, CInt 4]), (CStr ''Reproduction'', [CInt 1, CInt 0]),
                        (CStr ''Friction'', [CInt 7, CInt 9])]\<rparr>"

section \<open>Verified properties\<close>

subsection \<open>columnValues and CellRef\<close>

lemma rejected_iff: "(\<not> truthy v \<and> py_ne (CInt 0) v) = (\<not> non_empty v)"
proof (cases v)
  case (CFloat f)
  then show ?thesis by (cases f) (auto simp: py_ne_def non_empty_def is_numeric_zero_def)
qed (auto simp: py_ne_def non_empty_def is_numeric_zero_def)

lemma columnValues_loop_ok:
  "r + k \<le> length rows \<Longrightarrow> \<forall>i<k. cell_given rows c (r + i) \<Longrightarrow>
   columnValues_loop rows c r k vals = Inr (vals @ map (\<lambda>i. rows ! (r + i) ! c) [0..<k])"
proof (induction k arbitrary: r vals)
  case 0
  then show ?case by simp
next
  case (Suc k)
  from Suc.prems have g0: "cell_given rows c r" by (metis add.right_neutral zero_less_Suc)
  from Suc.prems have rest: "\<forall>i<k. cell_given rows c (Suc r + i)" by auto
  from Suc.prems have len: "Suc r + k \<le> length rows" "r < length rows" by auto
  have map_eq: "map (\<lambda>i. rows ! (r + i) ! c) [0..<Suc k]
      = (rows ! r ! c) # map (\<lambda>i. rows ! (Suc r + i) ! c) [0..<k]"
    by (simp add: upt_rec [of 0 "Suc k"] map_Suc_upt [symmetric] del: upt_Suc)
  from g0 have "\<not> (length (rows ! r) \<le> c \<or> (\<not> truthy (rows ! r ! c) \<and> py_ne (CInt 0) (rows ! r ! c)))"
    by (simp add: rejected_iff cell_given_def)
  with len Suc.IH [OF len(1) rest] show ?case
    by (simp add: Let_def map_eq del: upt_Suc)
qed

lemma columnValues_loop_fail:
  "r + i < length rows \<Longrightarrow> i < k \<Longrightarrow> \<not> cell_given rows c (r + i) \<Longrightarrow>
   \<forall>j<i. cell_given rows c (r + j) \<Longrightarrow>
   columnValues_loop rows c r k vals = Inl (Exception ''Value expected in cell %s'' [AStr (CellRef c (r + i))])"
proof (induction k arbitrary: r i vals)
  case 0
  then show ?case by simp
next
  case (Suc k)
  show ?case
  proof (cases i)
    case 0
    with Suc.prems have "length (rows ! r) \<le> c \<or> (\<not> truthy (rows ! r ! c) \<and> py_ne (CInt 0) (rows ! r ! c))"
      by (auto simp: rejected_iff cell_given_def)
    with 0 Suc.prems show ?thesis by (simp add: Let_def)
  next
    case (Suc i')
    with Suc.prems have g0: "cell_given rows c r" by (metis add.right_neutral zero_less_Suc)
    then have ok: "\<not> (length (rows ! r) \<le> c \<or> (\<not> truthy (rows ! r ! c) \<and> py_ne (CInt 0) (rows ! r ! c)))"
      by (simp add: rejected_iff cell_given_def)
    from Suc Suc.prems have a: "Suc r + i' < length rows" "i' < k" "\<not> cell_given rows c (Suc r + i')"
      by auto
    from Suc Suc.prems have b: "\<forall>j<i'. cell_given rows c (Suc r + j)" by auto
    from Suc.prems have "r < length rows" by simp
    with ok have "columnValues_loop rows c r (Suc k) vals
        = columnValues_loop rows c (Suc r) k (vals @ [rows ! r ! c])"
      by (auto simp: Let_def)
    with Suc.IH [OF a b] Suc show ?thesis by simp
  qed
qed

lemma str_nat_digits: "\<forall>d\<in>set (str_nat n). is_digit d"
proof (induction n rule: str_nat.induct)
  case (1 n)
  show ?case
  proof (cases "n < 10")
    case True
    then show ?thesis by (simp add: str_nat.simps [of n] is_digit_def)
  next
    case False
    have "n mod 10 < 10" by simp
    then have "is_digit (char_of (of_char CHR ''0'' + n mod 10))"
      by (simp add: is_digit_def)
    with False 1 show ?thesis by (simp add: str_nat.simps [of n])
  qed
qed

lemma decimal_value_snoc: "decimal_value (ds @ [d]) = 10 * decimal_value ds + (of_char d - of_char CHR ''0'')"
  by (simp add: decimal_value_def)

lemma str_nat_value: "decimal_value (str_nat n) = n"
proof (induction n rule: str_nat.induct)
  case (1 n)
  show ?case
  proof (cases "n < 10")
    case True
    then show ?thesis by (simp add: str_nat.simps [of n] decimal_value_def)
  next
    case False
    have "n mod 10 < 10" by simp
    then have "(of_char (char_of (of_char CHR ''0'' + n mod 10)) :: nat) - of_char CHR ''0'' = n mod 10"
      by simp
    with False 1 show ?thesis by (simp add: str_nat.simps [of n] decimal_value_snoc)
  qed
qed

lemma letters_all:
  "list_all (\<lambda>x. char_of (of_char CHR ''A'' + x) = ''ABCDEFGHIJKLMNOPQRSTUVWXYZ'' ! x) [0..<26]"
  by code_simp

lemma CellRef_letter: "x < 26 \<Longrightarrow> CellRef x y = (''ABCDEFGHIJKLMNOPQRSTUVWXYZ'' ! x) # str_nat (y + 1)"
  using letters_all unfolding list_all_iff CellRef_def by simp

lemma str_nat_nonempty: "str_nat n \<noteq> []"
  by (subst str_nat.simps) simp

lemma str_nat_no_leading_zero: "0 < n \<Longrightarrow> hd (str_nat n) \<noteq> CHR ''0''"
proof (induction n rule: str_nat.induct)
  case (1 n)
  show ?case
  proof (cases "n < 10")
    case True
    have "(of_char (char_of (of_char CHR ''0'' + n)) :: nat) = 48 + n" using True by simp
    moreover have "(of_char CHR ''0'' :: nat) = 48" by simp
    ultimately have "char_of (of_char CHR ''0'' + n) \<noteq> CHR ''0''"
      using "1.prems" by (metis add_cancel_right_right less_numeral_extra(3))
    with True show ?thesis by (simp add: str_nat.simps [of n])
  next
    case False
    then have "0 < n div 10" by simp
    with False 1 have "hd (str_nat (n div 10)) \<noteq> CHR ''0''" by simp
    with False show ?thesis by (simp add: str_nat.simps [of n] str_nat_nonempty)
  qed
qed

text \<open>
  C7. Reading a vertical span with \<open>columnValues\<close>: when every cell of the span is given
  and non-empty (a numeric zero counts as non-empty), the result is the list of these
  cells unchanged, zeros included. Otherwise the call fails at the first cell that is
  absent, \<open>None\<close> or an empty string, and the message carries \<open>CellRef\<close> of its zero-based
  column and row: for a column below 26 the capital letter of the column followed by the
  decimal digits of the row number plus one.
\<close>

theorem columnValues_non_empty:
  assumes "first_row + row_count \<le> length rows"
  shows "((\<forall>i<row_count. cell_given rows c (first_row + i)) \<longrightarrow>
            columnValues rows c first_row row_count
              = Inr (map (\<lambda>i. rows ! (first_row + i) ! c) [0..<row_count]))
       \<and> (\<forall>i<row_count. \<not> cell_given rows c (first_row + i)
              \<and> (\<forall>j<i. cell_given rows c (first_row + j)) \<longrightarrow>
            columnValues rows c first_row row_count
              = Inl (Exception ''Value expected in cell %s'' [AStr (CellRef c (first_row + i))]))
       \<and> (c < 26 \<longrightarrow> (\<forall>y. CellRef c y = (''ABCDEFGHIJKLMNOPQRSTUVWXYZ'' ! c) # str_nat (y + 1)
              \<and> decimal_value (str_nat (y + 1)) = y + 1
              \<and> (\<forall>d\<in>set (str_nat (y + 1)). is_digit d)
              \<and> hd (str_nat (y + 1)) \<noteq> CHR ''0''))"
proof (intro conjI impI allI)
  assume "\<forall>i<row_count. cell_given rows c (first_row + i)"
  with assms show "columnValues rows c first_row row_count
      = Inr (map (\<lambda>i. rows ! (first_row + i) ! c) [0..<row_count])"
    by (simp add: columnValues_def columnValues_loop_ok)
next
  fix i
  assume "i < row_count"
    and "\<not> cell_given rows c (first_row + i) \<and> (\<forall>j<i. cell_given rows c (first_row + j))"
  with assms show "columnValues rows c first_row row_count
      = Inl (Exception ''Value expected in cell %s'' [AStr (CellRef c (first_row + i))])"
    unfolding columnValues_def by (intro columnValues_loop_fail) auto
next
  fix y assume "c < 26"
  then show "CellRef c y = (''ABCDEFGHIJKLMNOPQRSTUVWXYZ'' ! c) # str_nat (y + 1)"
    by (rule CellRef_letter)
next
  fix y show "decimal_value (str_nat (y + 1)) = y + 1" by (rule str_nat_value)
next
  fix y show "\<forall>d\<in>set (str_nat (y + 1)). is_digit d" by (rule str_nat_digits)
next
  fix y show "hd (str_nat (y + 1)) \<noteq> CHR ''0''" by (rule str_nat_no_leading_zero) simp
qed

theorem columnValues_non_empty_witness:
  "columnValues [[CStr ''h''], [CInt 0, CStr ''a''], [CFloat (FNum 0)]] 0 1 2
     = Inr [CInt 0, CFloat (FNum 0)]
   \<and> columnValues [[CStr ''h''], [CInt 0, CStr ''a''], [CStr []]] 0 1 2
     = Inl (Exception ''Value expected in cell %s'' [AStr ''A3''])
   \<and> columnValues [[CStr ''h''], [CInt 0], [CNone, CInt 5]] 1 1 2
     = Inl (Exception ''Value expected in cell %s'' [AStr ''B2''])"
proof -
  let ?g1 = "[[CStr ''h''], [CInt 0, CStr ''a''], [CFloat (FNum 0)]]"
  let ?g2 = "[[CStr ''h''], [CInt 0, CStr ''a''], [CStr []]]"
  let ?g3 = "[[CStr ''h''], [CInt 0], [CNone, CInt 5]]"
  have two: "\<And>P. (\<forall>i<(2::nat). P i) = (P 0 \<and> P 1)"
    by (auto simp: numeral_2_eq_2 less_Suc_eq)
  have one: "\<And>P. (\<forall>i<(1::nat). P i) = P 0" by auto
  have cr: "CellRef 0 (Suc (Suc 0)) = ''A3''" "CellRef (Suc 0) (Suc 0) = ''B2''" by code_simp+
  have upt2: "[0..<(2::nat)] = [0, 1]" by (simp add: numeral_2_eq_2 upt_rec)
  have h1: "1 + 2 \<le> length ?g1" and h2: "1 + 2 \<le> length ?g2" and h3: "1 + 2 \<le> length ?g3"
    by simp_all
  have a: "columnValues ?g1 0 1 2 = Inr [CInt 0, CFloat (FNum 0)]"
    using columnValues_non_empty [OF h1, of 0, THEN conjunct1]
    by (simp add: two cell_given_def non_empty_def is_numeric_zero_def upt2)
  have b: "columnValues ?g2 0 1 2 = Inl (Exception ''Value expected in cell %s'' [AStr ''A3''])"
    using columnValues_non_empty [OF h2, of 0, THEN conjunct2, THEN conjunct1, rule_format, of 1]
    by (simp add: one cell_given_def non_empty_def is_numeric_zero_def cr)
  have c: "columnValues ?g3 1 1 2 = Inl (Exception ''Value expected in cell %s'' [AStr ''B2''])"
    using columnValues_non_empty [OF h3, of 1, THEN conjunct2, THEN conjunct1, rule_format, of 0]
    by (simp add: cell_given_def non_empty_def is_numeric_zero_def cr)
  from a b c show ?thesis by simp
qed

subsection \<open>Header row and header column at index 0\<close>

text \<open>
  C2. The claim says that a header row found at index 0, and a name label found at column
  index 0, are used like any other. The code tests the found index for truth, so it
  reports both as missing: the first grid has the biotope-code label in row 0, the
  second has its header row at index 3 and the name label in column 0. The third grid is
  the second one moved one column to the right, and is accepted.
\<close>

theorem header_index_zero_reported_missing:
  \<open>loadBatchParameters_rows
     [[CStr ''BiotopeCode'', CStr ''Quality'', CStr ''Source'', CStr ''Friction''],
      [CInt 1, CInt 2, CInt 1, CInt 3]]
     = Inl (Exception ''Column header "%s" not found.'' [AStr ''BiotopeCode''])
   \<and> loadBatchParameters_rows
     [[CStr ''Network name'', CStr ''Corridor'', CNone, CNone],
      [CStr ''Average dispersal distance (metres)'', CInt 500, CNone, CNone],
      [CStr ''Network threshold'', CFloat (FNum (1 / 20)), CNone, CNone],
      [CStr ''BiotopeCode'', CStr ''Quality'', CStr ''Source'', CStr ''Friction''],
      [CInt 1, CInt 2, CInt 1, CInt 3]]
     = Inl (Exception ''Row header "%s" not found.'' [AStr ''Network name''])
   \<and> loadBatchParameters_rows
     [[CNone, CStr ''Network name'', CStr ''Corridor'', CNone, CNone],
      [CNone, CStr ''Average dispersal distance (metres)'', CInt 500, CNone, CNone],
      [CNone, CStr ''Network threshold'', CFloat (FNum (1 / 20)), CNone, CNone],
      [CNone, CStr ''BiotopeCode'', CStr ''Quality'', CStr ''Source'', CStr ''Friction''],
      [CNone, CInt 1, CInt 2, CInt 1, CInt 3]]
     = Inr \<lparr>biotopeCodes = [CInt 1],
            parameterSets =
              [\<lparr>parameters =
                  [(CStr ''Network name'', CStr ''Corridor''),
                   (CStr ''Average dispersal distance (metres)'', CInt 500),
                   (CStr ''Network threshold'', CFloat (FNum (1 / 20)))],
                columns =
                  [(CStr ''Quality'', [CInt 2]), (CStr ''Source'', [CInt 1]),
                   (CStr ''Friction'', [CInt 3])]\<rparr>]\<rparr>\<close>
  by code_simp

subsection \<open>The length of the data columns\<close>

lemma columnValues_loop_length:
  "columnValues_loop rows c r k vals = Inr vs \<Longrightarrow> length vs = length vals + k"
  by (induction k arbitrary: r vals) (auto simp: Let_def split: if_splits)

lemma columnValues_length: "columnValues rows c r n = Inr vs \<Longrightarrow> length vs = n"
  by (auto simp: columnValues_def dest: columnValues_loop_length)

lemma dict_set_columns_have_length:
  "columns_have_length n cols \<Longrightarrow> length v = n \<Longrightarrow> columns_have_length n (dict_set cols k v)"
  by (induction cols) (auto simp: columns_have_length_def)

lemma read_columns_have_length:
  "read_columns rows headerRow name_row first_row n c cols = Inr (k, cols') \<Longrightarrow>
   columns_have_length n cols \<Longrightarrow> columns_have_length n cols'"
proof (induction rows headerRow name_row first_row n c cols rule: read_columns.induct)
  case (1 rows headerRow name_row first_row n c cols)
  show ?case
  proof (cases "c < length headerRow \<and> truthy (headerRow ! c)")
    case False
    with "1.prems" show ?thesis by (simp add: read_columns.simps)
  next
    case True
    then obtain vals where cv: "columnValues rows c first_row n = Inr vals"
      using "1.prems"(1) by (cases "columnValues rows c first_row n") (auto simp: read_columns.simps)
    let ?cols = "dict_set cols (headerRow ! c) vals"
    have inv: "columns_have_length n ?cols"
      using "1.prems"(2) cv by (simp add: dict_set_columns_have_length columnValues_length)
    show ?thesis
    proof (cases "length name_row \<le> c + 1 \<or> truthy (name_row ! (c + 1))")
      case stop: True
      with True cv "1.prems"(1) have "cols' = ?cols"
        by (auto simp: read_columns.simps [of rows headerRow name_row first_row n c] Let_def)
      with inv show ?thesis by simp
    next
      case go: False
      with True cv "1.prems"(1)
      have "read_columns rows headerRow name_row first_row n (c + 1) ?cols = Inr (k, cols')"
        by (auto simp: read_columns.simps [of rows headerRow name_row first_row n c] Let_def)
      with "1.IH" [OF True cv refl refl] go inv show ?thesis by auto
    qed
  qed
qed

lemma read_parameter_sets_have_length:
  "read_parameter_sets rows headerRow nr m first_row n c sets = Inr sets' \<Longrightarrow>
   list_all (\<lambda>ps. columns_have_length n (columns ps)) sets \<Longrightarrow>
   list_all (\<lambda>ps. columns_have_length n (columns ps)) sets'"
proof (induction rows headerRow nr m first_row n c sets rule: read_parameter_sets.induct)
  case (1 rows headerRow nr m first_row n c sets)
  show ?case
  proof (cases "c < length nr \<and> c < length headerRow \<and> truthy (headerRow ! c)")
    case False
    with "1.prems" show ?thesis by (auto simp: read_parameter_sets.simps)
  next
    case True
    from True "1.prems"(1) obtain ps where rp: "read_parameters rows c m [] = Inr ps"
      by (cases "read_parameters rows c m []") (auto simp: read_parameter_sets.simps)
    from True rp "1.prems"(1) obtain k cols where
      rc: "read_columns rows headerRow nr first_row n c [] = Inr (k, cols)"
      by (cases "read_columns rows headerRow nr first_row n c []")
         (auto simp: read_parameter_sets.simps [of rows headerRow nr m first_row n c])
    from True rp rc "1.prems"(1) obtain u where cc: "check_columns cols ps COLUMNS = Inr u"
      by (cases "check_columns cols ps COLUMNS")
         (auto simp: read_parameter_sets.simps [of rows headerRow nr m first_row n c])
    from True rp rc cc "1.prems"(1)
    have rec: "read_parameter_sets rows headerRow nr m first_row n k
                 (sets @ [\<lparr>parameters = ps, columns = cols\<rparr>]) = Inr sets'"
      by (auto simp: read_parameter_sets.simps [of rows headerRow nr m first_row n c])
    have "columns_have_length n cols"
      using read_columns_have_length [OF rc] by (simp add: columns_have_length_def)
    with "1.prems"(2)
    have "list_all (\<lambda>ps. columns_have_length n (columns ps)) (sets @ [\<lparr>parameters = ps, columns = cols\<rparr>])"
      by simp
    with "1.IH" [OF True rp rc refl cc rec] show ?thesis by simp
  qed
qed

text \<open>
  C9. In every \<open>BatchParameters\<close> that the extraction returns, each entry of each parameter
  set's \<open>columns\<close> dictionary is a list as long as \<open>biotopeCodes\<close> (the row category codes).
\<close>

theorem columns_length_eq_biotopeCodes:
  assumes "loadBatchParameters_rows rows = Inr bp"
  shows "\<forall>ps\<in>set (parameterSets bp). \<forall>(name, col)\<in>set (columns ps).
           length col = length (biotopeCodes bp)"
proof -
  from assms obtain hr hc m code_column codes nri sets where
    rs: "read_parameter_sets rows (rows ! hr) (rows ! nri) m (hr + 1) (length codes) (hc + 1) [] = Inr sets"
    and bp: "bp = \<lparr>biotopeCodes = codes, parameterSets = sets\<rparr>"
    by (auto simp: loadBatchParameters_rows_def Let_def
        split: option.splits if_splits sum.splits)
  from read_parameter_sets_have_length [OF rs]
  have "list_all (\<lambda>ps. columns_have_length (length codes) (columns ps)) sets" by simp
  with bp show ?thesis
    by (fastforce simp: list_all_iff columns_have_length_def)
qed

theorem columns_length_eq_biotopeCodes_witness:
  \<open>loadBatchParameters_rows
     [[CNone, CStr ''Network name'', CStr ''Corridor'', CNone, CNone],
      [CNone, CStr ''Average dispersal distance (metres)'', CInt 500, CNone, CNone],
      [CNone, CStr ''Network threshold'', CFloat (FNum (1 / 20)), CNone, CNone],
      [CNone, CStr ''BiotopeCode'', CStr ''Quality'', CStr ''Reproduction'', CStr ''Friction''],
      [CNone, CInt 1, CInt 2, CInt 1, CInt 3],
      [CNone, CInt 0, CInt 0, CInt 0, CFloat (FNum 5)]]
     = Inr \<lparr>biotopeCodes = [CInt 1, CInt 0],
            parameterSets =
              [\<lparr>parameters =
                  [(CStr ''Network name'', CStr ''Corridor''),
                   (CStr ''Average dispersal distance (metres)'', CInt 500),
                   (CStr ''Network threshold'', CFloat (FNum (1 / 20)))],
                columns =
                  [(CStr ''Quality'', [CInt 2, CInt 0]), (CStr ''Reproduction'', [CInt 1, CInt 0]),
                   (CStr ''Friction'', [CInt 3, CFloat (FNum 5)])]\<rparr>]\<rparr>
   \<and> list_all (\<lambda>ps. columns_have_length (length [CInt 1, CInt 0 :: cell]) (columns ps))
        [\<lparr>parameters =
            [(CStr ''Network name'', CStr ''Corridor''),
             (CStr ''Average dispersal distance (metres)'', CInt 500),
             (CStr ''Network threshold'', CFloat (FNum (1 / 20)))],
          columns =
            [(CStr ''Quality'', [CInt 2, CInt 0]), (CStr ''Reproduction'', [CInt 1, CInt 0]),
             (CStr ''Friction'', [CInt 3, CFloat (FNum 5)])]\<rparr>]\<close>
proof -
  let ?g = "[[CNone, CStr ''Network name'', CStr ''Corridor'', CNone, CNone],
      [CNone, CStr ''Average dispersal distance (metres)'', CInt 500, CNone, CNone],
      [CNone, CStr ''Network threshold'', CFloat (FNum (1 / 20)), CNone, CNone],
      [CNone, CStr ''BiotopeCode'', CStr ''Quality'', CStr ''Reproduction'', CStr ''Friction''],
      [CNone, CInt 1, CInt 2, CInt 1, CInt 3],
      [CNone, CInt 0, CInt 0, CInt 0, CFloat (FNum 5)]]"
  let ?bp = "\<lparr>biotopeCodes = [CInt 1, CInt 0],
            parameterSets =
              [\<lparr>parameters =
                  [(CStr ''Network name'', CStr ''Corridor''),
                   (CStr ''Average dispersal distance (metres)'', CInt 500),
                   (CStr ''Network threshold'', CFloat (FNum (1 / 20)))],
                columns =
                  [(CStr ''Quality'', [CInt 2, CInt 0]), (CStr ''Reproduction'', [CInt 1, CInt 0]),
                   (CStr ''Friction'', [CInt 3, CFloat (FNum 5)])]\<rparr>]\<rparr>"
  have run: "loadBatchParameters_rows ?g = Inr ?bp" by code_simp
  from columns_length_eq_biotopeCodes [OF run] run show ?thesis
    by (simp add: columns_have_length_def)
qed

subsection \<open>Synonym lookup\<close>



lemma get_first_find:
  "get_first d names =
     (case find (has_key d) names of None \<Rightarrow> None | Some n \<Rightarrow> dict_get d (CStr n))"
  by (induction names) (auto simp: has_key_def split: option.splits)

lemma find_has_key_Some: "find (has_key d) names = Some n \<Longrightarrow> \<exists>v. dict_get d (CStr n) = Some v"
  by (auto simp: find_Some_iff has_key_def)


lemma check_row_headers_all_found:
  "list_all (\<lambda>q. find (has_key m) (names_of q) \<noteq> None) ps \<Longrightarrow> check_row_headers m ps = Inr ()"
proof (induction ps)
  case Nil
  then show ?case by simp
next
  case (Cons q ps)
  then obtain n where "find (has_key m) (names_of q) = Some n" by auto
  moreover from this obtain v where "dict_get m (CStr n) = Some v"
    using find_has_key_Some by blast
  ultimately show ?case using Cons by (simp add: get_first_find Let_def)
qed


lemma missing_after_loop_Exception:
  "names \<noteq> [] \<Longrightarrow> last names \<noteq> [] \<Longrightarrow> \<exists>a. missing_after_loop fmt names = Exception fmt [AStr a]"
  by (simp add: missing_after_loop_def)




subsection \<open>Opening a package\<close>

lemma loadXml_Inr_iff: "(\<exists>r. loadXml ar path = Inr r) = member_parses ar path"
  by (auto simp: loadXml_def member_parses_def split: option.splits)

lemma shared_strings_loop_concat:
  "shared_strings_loop sis acc =
     acc @ concat (map (\<lambda>si. case xml_find si (qname NS_MAIN ''t'') of
                                None \<Rightarrow> [] | Some t \<Rightarrow> [xml_text t]) sis)"
  by (induction sis arbitrary: acc) (auto split: option.splits)

lemma concat_no_t:
  "list_all (\<lambda>si. xml_find si (qname NS_MAIN ''t'') = None) sis \<Longrightarrow>
   concat (map (\<lambda>si. case xml_find si (qname NS_MAIN ''t'') of
                         None \<Rightarrow> [] | Some t \<Rightarrow> [xml_text t]) sis) = []"
  by (induction sis) auto

lemma OpenWorkbook_sharedStrings:
  "OpenWorkbook (Some ar) = Inr wb \<Longrightarrow> ar ''xl/sharedStrings.xml'' = Some (Some r) \<Longrightarrow>
   wb_sharedStrings wb =
     concat (map (\<lambda>si. case xml_find si (qname NS_MAIN ''t'') of
                           None \<Rightarrow> [] | Some t \<Rightarrow> [xml_text t])
               (xml_findall r (qname NS_MAIN ''si'')))"
  by (auto simp: OpenWorkbook_def loadRels_def loadSheetDefs_def loadSharedStrings_def
        loadXml_def shared_strings_loop_concat split: option.splits sum.splits)

text \<open>
  C4, as amended. \<open>OpenWorkbook\<close> succeeds exactly when the file opens as a zip archive
  and the three members \<open>xl/_rels/workbook.xml.rels\<close>, \<open>xl/workbook.xml\<close> and
  \<open>xl/sharedStrings.xml\<close> are all present and parse as XML. With the first two in place
  and no \<open>xl/sharedStrings.xml\<close> member it fails with the archive's \<open>KeyError\<close> for that
  name. On success the shared strings are the texts of the \<open>t\<close> children of the \<open>si\<close>
  elements of that member, in document order, one for each \<open>si\<close> that has a \<open>t\<close>; when no
  \<open>si\<close> has a \<open>t\<close> (in particular when there is no \<open>si\<close>) the reader has zero shared
  strings.
\<close>

theorem OpenWorkbook_needs_sharedStrings:
  "((\<exists>wb. OpenWorkbook pkg = Inr wb) =
      (\<exists>ar. pkg = Some ar \<and> member_parses ar ''xl/_rels/workbook.xml.rels''
            \<and> member_parses ar ''xl/workbook.xml'' \<and> member_parses ar ''xl/sharedStrings.xml''))
   \<and> (\<forall>ar. pkg = Some ar \<and> member_parses ar ''xl/_rels/workbook.xml.rels''
            \<and> member_parses ar ''xl/workbook.xml'' \<and> ar ''xl/sharedStrings.xml'' = None
         \<longrightarrow> OpenWorkbook pkg = Inl (KeyError (Some ''xl/sharedStrings.xml'')))
   \<and> (\<forall>wb ar r. OpenWorkbook pkg = Inr wb \<and> pkg = Some ar
            \<and> ar ''xl/sharedStrings.xml'' = Some (Some r)
         \<longrightarrow> wb_sharedStrings wb =
               concat (map (\<lambda>si. case xml_find si (qname NS_MAIN ''t'') of
                                     None \<Rightarrow> [] | Some t \<Rightarrow> [xml_text t])
                         (xml_findall r (qname NS_MAIN ''si'')))
             \<and> (list_all (\<lambda>si. xml_find si (qname NS_MAIN ''t'') = None)
                   (xml_findall r (qname NS_MAIN ''si''))
                 \<longrightarrow> wb_sharedStrings wb = []))"
proof (intro conjI allI impI)
  show "(\<exists>wb. OpenWorkbook pkg = Inr wb) =
      (\<exists>ar. pkg = Some ar \<and> member_parses ar ''xl/_rels/workbook.xml.rels''
            \<and> member_parses ar ''xl/workbook.xml'' \<and> member_parses ar ''xl/sharedStrings.xml'')"
    by (cases pkg)
       (auto simp: OpenWorkbook_def loadRels_def loadSheetDefs_def loadSharedStrings_def
          loadXml_def member_parses_def split: option.splits sum.splits)
next
  fix ar
  assume "pkg = Some ar \<and> member_parses ar ''xl/_rels/workbook.xml.rels''
            \<and> member_parses ar ''xl/workbook.xml'' \<and> ar ''xl/sharedStrings.xml'' = None"
  then show "OpenWorkbook pkg = Inl (KeyError (Some ''xl/sharedStrings.xml''))"
    by (auto simp: OpenWorkbook_def loadRels_def loadSheetDefs_def loadSharedStrings_def
          loadXml_def member_parses_def split: option.splits sum.splits)
next
  fix wb ar r
  assume "OpenWorkbook pkg = Inr wb \<and> pkg = Some ar
            \<and> ar ''xl/sharedStrings.xml'' = Some (Some r)"
  then show "wb_sharedStrings wb =
               concat (map (\<lambda>si. case xml_find si (qname NS_MAIN ''t'') of
                                     None \<Rightarrow> [] | Some t \<Rightarrow> [xml_text t])
                         (xml_findall r (qname NS_MAIN ''si'')))"
    using OpenWorkbook_sharedStrings by blast
next
  fix wb ar r
  assume "OpenWorkbook pkg = Inr wb \<and> pkg = Some ar
            \<and> ar ''xl/sharedStrings.xml'' = Some (Some r)"
    and "list_all (\<lambda>si. xml_find si (qname NS_MAIN ''t'') = None)
           (xml_findall r (qname NS_MAIN ''si''))"
  then show "wb_sharedStrings wb = []"
    using OpenWorkbook_sharedStrings [of ar wb r] concat_no_t by auto
qed

text \<open>
  C4 as stated fails: opening a package with the workbook and relationship parts but
  without \<open>xl/sharedStrings.xml\<close> does not yield a reader.
\<close>

theorem OpenWorkbook_without_sharedStrings_counterexample:
  "OpenWorkbook (Some two_part_package) = Inl (KeyError (Some ''xl/sharedStrings.xml''))"
  by (simp add: OpenWorkbook_def loadRels_def loadSheetDefs_def loadSharedStrings_def
        loadXml_def two_part_package_def)

theorem OpenWorkbook_needs_sharedStrings_witness:
  "(\<exists>wb. OpenWorkbook (Some three_part_package) = Inr wb \<and> wb_sharedStrings wb = [])
   \<and> OpenWorkbook (Some two_part_package) = Inl (KeyError (Some ''xl/sharedStrings.xml''))"
proof -
  have parts: "member_parses three_part_package ''xl/_rels/workbook.xml.rels''"
    "member_parses three_part_package ''xl/workbook.xml''"
    "member_parses three_part_package ''xl/sharedStrings.xml''"
    by (simp_all add: member_parses_def three_part_package_def two_part_package_def)
  then obtain wb where opens: "OpenWorkbook (Some three_part_package) = Inr wb"
    using OpenWorkbook_needs_sharedStrings [where pkg = "Some three_part_package",
        THEN conjunct1]
    by blast
  have ss: "three_part_package ''xl/sharedStrings.xml''
      = Some (Some (Element (qname NS_MAIN ''sst'') [] None []))"
    by (simp add: three_part_package_def)
  have "wb_sharedStrings wb = []"
    using OpenWorkbook_needs_sharedStrings [where pkg = "Some three_part_package",
        THEN conjunct2, THEN conjunct2, rule_format,
        of wb three_part_package "Element (qname NS_MAIN ''sst'') [] None []"]
      opens ss
    by (simp add: xml_findall_def)
  moreover have "OpenWorkbook (Some two_part_package)
      = Inl (KeyError (Some ''xl/sharedStrings.xml''))"
    using OpenWorkbook_needs_sharedStrings [where pkg = "Some two_part_package",
        THEN conjunct2, THEN conjunct1, rule_format, of two_part_package]
    by (simp add: member_parses_def two_part_package_def)
  ultimately show ?thesis using opens by blast
qed

subsection \<open>Coercion of cell text\<close>

text \<open>
  C5. For a raw text \<open>s\<close>, \<open>ValueFromString\<close> gives the integer \<open>int(s)\<close> when that parse
  succeeds, else the float \<open>float(s)\<close> when that parse succeeds, else the string itself;
  a cell element that is not marked as a shared string stores exactly this value at its
  column. So \<open>42\<close> becomes the integer 42, \<open>3.5\<close> the float 3.5 and \<open>abc\<close> stays a string.
\<close>

theorem ValueFromString_int_float_string:
  "(\<forall>i. py_int s = Some i \<longrightarrow> ValueFromString (Some s) = CInt i)
   \<and> (\<forall>f. py_int s = None \<and> py_float s = Some f \<longrightarrow> ValueFromString (Some s) = CFloat f)
   \<and> (py_int s = None \<and> py_float s = None \<longrightarrow> ValueFromString (Some s) = CStr s)
   \<and> (\<forall>col tx. cell_column c_node = Some col \<and> value_child_text c_node = Some (Some tx)
          \<and> attrib_get c_node ''t'' \<noteq> Some ''s''
        \<longrightarrow> load_cell sharedStrings row c_node
            = py_list_set row col
                (case py_int tx of
                   Some i \<Rightarrow> CInt i
                 | None \<Rightarrow> (case py_float tx of Some f \<Rightarrow> CFloat f | None \<Rightarrow> CStr tx)))
   \<and> ValueFromString (Some ''42'') = CInt 42
   \<and> ValueFromString (Some ''3.5'') = CFloat (FNum (7 / 2))
   \<and> ValueFromString (Some ''abc'') = CStr ''abc''"
proof (intro conjI allI impI)
  fix col tx
  assume "cell_column c_node = Some col \<and> value_child_text c_node = Some (Some tx)
          \<and> attrib_get c_node ''t'' \<noteq> Some ''s''"
  then show "load_cell sharedStrings row c_node
            = py_list_set row col
                (case py_int tx of
                   Some i \<Rightarrow> CInt i
                 | None \<Rightarrow> (case py_float tx of Some f \<Rightarrow> CFloat f | None \<Rightarrow> CStr tx))"
    by (auto simp: load_cell_def cell_column_def value_child_text_def ValueFromString_def Let_def
        split: option.splits if_splits)
next
  show "ValueFromString (Some ''42'') = CInt 42" by code_simp
next
  show "ValueFromString (Some ''3.5'') = CFloat (FNum (7 / 2))" by code_simp
next
  show "ValueFromString (Some ''abc'') = CStr ''abc''" by code_simp
qed (simp_all add: ValueFromString_def)

theorem ValueFromString_int_float_string_witness:
  "ValueFromString (Some '' -1_000 '') = CInt (- 1000)
   \<and> ValueFromString (Some ''42.0'') = CFloat (FNum 42)
   \<and> ValueFromString (Some ''4 2'') = CStr ''4 2''
   \<and> load_cell [] [CNone, CNone, CNone]
        (Element (qname NS_MAIN ''c'') [(''r'', ''B7'')] None
           [Element (qname NS_MAIN ''v'') [] (Some ''2.5e1'') []])
      = Inr [CNone, CFloat (FNum 25), CNone]"
proof -
  let ?c = "Element (qname NS_MAIN ''c'') [(''r'', ''B7'')] None
           [Element (qname NS_MAIN ''v'') [] (Some ''2.5e1'') []]"
  have p1: "py_int '' -1_000 '' = Some (- 1000)" by code_simp
  have p2: "py_int ''42.0'' = None \<and> py_float ''42.0'' = Some (FNum 42)" by code_simp
  have p4: "py_int ''4 2'' = None \<and> py_float ''4 2'' = None" by code_simp
  have p5: "py_int ''2.5e1'' = None" "py_float ''2.5e1'' = Some (FNum 25)" by code_simp+
  have c5: "cell_column ?c = Some 1 \<and> value_child_text ?c = Some (Some ''2.5e1'')
      \<and> attrib_get ?c ''t'' \<noteq> Some ''s''"
    by code_simp
  have a: "ValueFromString (Some '' -1_000 '') = CInt (- 1000)"
    using ValueFromString_int_float_string [THEN conjunct1, rule_format, OF p1] .
  have b: "ValueFromString (Some ''42.0'') = CFloat (FNum 42)"
    using ValueFromString_int_float_string [THEN conjunct2, THEN conjunct1, rule_format, OF p2] .
  have d: "ValueFromString (Some ''4 2'') = CStr ''4 2''"
    using ValueFromString_int_float_string [THEN conjunct2, THEN conjunct2, THEN conjunct1,
        rule_format, OF p4] .
  have e: "load_cell [] [CNone, CNone, CNone] ?c = Inr [CNone, CFloat (FNum 25), CNone]"
    using ValueFromString_int_float_string [THEN conjunct2, THEN conjunct2, THEN conjunct2,
        THEN conjunct1, rule_format, OF c5, of "[]" "[CNone, CNone, CNone]"]
    by (simp add: p5 py_list_set_def py_position_def)
  from a b d e show ?thesis by simp
qed

text \<open>
  Claim C8. A worksheet whose \<open>sheetData\<close> element has no \<open>row\<close> children cannot be
  loaded: \<open>max\<close> of the empty list of row numbers raises, so \<open>loadSheetData\<close> returns
  \<open>ValueError\<close> and never a grid. Conversely, whenever \<open>loadSheetData\<close> returns a grid the
  worksheet had at least one row element.
\<close>
theorem loadSheetData_no_rows_fails:
  "(xml_findall sheetData_node (qname NS_MAIN ''row'') = []
      \<longrightarrow> build_grid sharedStrings sheetData_node = Inl ValueError)
   \<and> (\<forall>path root_node. sheetPath self index = Inr path
          \<and> loadXml (wb_archive self) path = Inr root_node
          \<and> xml_find root_node (qname NS_MAIN ''sheetData'') = Some sheetData_node
          \<and> xml_findall sheetData_node (qname NS_MAIN ''row'') = []
        \<longrightarrow> loadSheetData self index = Inl ValueError)
   \<and> (\<forall>rows. loadSheetData self index = Inr rows
        \<longrightarrow> (\<exists>path root_node sd. sheetPath self index = Inr path
              \<and> loadXml (wb_archive self) path = Inr root_node
              \<and> xml_find root_node (qname NS_MAIN ''sheetData'') = Some sd
              \<and> xml_findall sd (qname NS_MAIN ''row'') \<noteq> []))"
proof (intro conjI allI impI)
  assume "xml_findall sheetData_node (qname NS_MAIN ''row'') = []"
  then show "build_grid sharedStrings sheetData_node = Inl ValueError"
    by (simp add: build_grid_def)
next
  fix path root_node
  assume "sheetPath self index = Inr path
          \<and> loadXml (wb_archive self) path = Inr root_node
          \<and> xml_find root_node (qname NS_MAIN ''sheetData'') = Some sheetData_node
          \<and> xml_findall sheetData_node (qname NS_MAIN ''row'') = []"
  then show "loadSheetData self index = Inl ValueError"
    by (simp add: loadSheetData_def build_grid_def)
next
  fix rows
  assume ok: "loadSheetData self index = Inr rows"
  then obtain path root_node sd where
    r: "sheetPath self index = Inr path" "loadXml (wb_archive self) path = Inr root_node"
      "xml_find root_node (qname NS_MAIN ''sheetData'') = Some sd"
      "build_grid (wb_sharedStrings self) sd = Inr rows"
    by (auto simp: loadSheetData_def split: sum.splits option.splits)
  from r(4) have "xml_findall sd (qname NS_MAIN ''row'') \<noteq> []"
    by (auto simp: build_grid_def split: sum.splits if_splits)
  with r show "\<exists>path root_node sd. sheetPath self index = Inr path
              \<and> loadXml (wb_archive self) path = Inr root_node
              \<and> xml_find root_node (qname NS_MAIN ''sheetData'') = Some sd
              \<and> xml_findall sd (qname NS_MAIN ''row'') \<noteq> []"
    by blast
qed

theorem loadSheetData_no_rows_fails_witness:
  "(\<exists>wb. OpenWorkbook (Some empty_sheet_package) = Inr wb
        \<and> loadSheetData wb 0 = Inl ValueError)
   \<and> loadBatchParameters (Some empty_sheet_package) = Inl ValueError"
proof -
  let ?sd = "Element (qname NS_MAIN ''sheetData'') [] None []"
  let ?root = "Element (qname NS_MAIN ''worksheet'') [] None [?sd]"
  obtain wb where wb: "OpenWorkbook (Some empty_sheet_package) = Inr wb"
    and ar: "wb_archive wb = empty_sheet_package"
    and path: "sheetPath wb 0 = Inr ''xl/worksheets/sheet1.xml''"
    and nm: "sheetName wb 0 = Inr (Some ''Sheet1'')"
    by (simp add: OpenWorkbook_def loadRels_def loadSheetDefs_def loadSharedStrings_def
        loadXml_def empty_sheet_package_def three_part_package_def two_part_package_def
        sheetPath_def sheetName_def py_list_get_def py_position_def sheets_of_def
        stripNameSpace_def qname_def attrib_get_def xml_findall_def)
  have doc: "loadXml (wb_archive wb) ''xl/worksheets/sheet1.xml'' = Inr ?root"
    by (simp add: ar loadXml_def empty_sheet_package_def)
  have sd: "xml_find ?root (qname NS_MAIN ''sheetData'') = Some ?sd"
    by (simp add: xml_find_def)
  have none: "xml_findall ?sd (qname NS_MAIN ''row'') = []"
    by (simp add: xml_findall_def)
  have fails: "loadSheetData wb 0 = Inl ValueError"
    using loadSheetData_no_rows_fails [where self = wb and index = 0 and sheetData_node = ?sd,
        THEN conjunct2, THEN conjunct1, rule_format, of "''xl/worksheets/sheet1.xml''" ?root]
      path doc sd none
    by simp
  with wb nm show ?thesis
    by (auto simp: loadBatchParameters_def)
qed

subsection \<open>Cells without a value\<close>

lemma load_cell_valueless:
  "value_child_text c = None \<Longrightarrow> cell_column c \<noteq> None \<Longrightarrow> load_cell ss row c = Inr row"
  by (auto simp: value_child_text_def cell_column_def load_cell_def
      split: option.splits if_splits)

lemma load_cells_append:
  "load_cells ss row (xs @ ys) =
     (case load_cells ss row xs of Inl e \<Rightarrow> Inl e | Inr row' \<Rightarrow> load_cells ss row' ys)"
  by (induction xs arbitrary: row) (auto split: sum.splits)

lemma py_list_set_Inr:
  "py_list_set xs i v = Inr ys \<Longrightarrow>
     \<exists>k. py_position (length xs) i = Some k \<and> k < length xs \<and> ys = xs[k := v]"
  by (auto simp: py_list_set_def py_position_def split: option.splits if_splits)

lemma load_cell_Inr:
  assumes "load_cell ss row c = Inr row'"
  shows "length row' = length row"
    and "k < length row \<Longrightarrow> (value_child_text c \<noteq> None \<longrightarrow> cell_slot (length row) c \<noteq> Some k)
           \<Longrightarrow> row' ! k = row ! k"
proof -
  from assms obtain ref where ref: "attrib_get c ''r'' = Some ref" "ref \<noteq> []"
    by (auto simp: load_cell_def split: option.splits if_splits)
  let ?col = "int (of_char (hd ref)) - int (of_char CHR ''A'')"
  have col: "cell_column c = Some ?col" using ref by (simp add: cell_column_def)
  show "length row' = length row"
    using assms ref
    by (auto simp: load_cell_def Let_def dest!: py_list_set_Inr
        split: option.splits if_splits sum.splits)
  assume k: "k < length row"
    and free: "value_child_text c \<noteq> None \<longrightarrow> cell_slot (length row) c \<noteq> Some k"
  show "row' ! k = row ! k"
  proof (cases "xml_find c (qname NS_MAIN ''v'')")
    case None
    with assms ref show ?thesis by (simp add: load_cell_def)
  next
    case (Some v)
    then have "value_child_text c \<noteq> None" by (simp add: value_child_text_def)
    with free col have ne: "py_position (length row) ?col \<noteq> Some k"
      by (simp add: cell_slot_def)
    from assms ref Some obtain x where "py_list_set row ?col x = Inr row'"
      by (auto simp: load_cell_def Let_def split: option.splits if_splits sum.splits)
    then obtain k' where "py_position (length row) ?col = Some k'" "row' = row[k' := x]"
      by (auto dest: py_list_set_Inr)
    with ne show ?thesis by auto
  qed
qed

lemma load_cells_Inr:
  "load_cells ss row cells = Inr row' \<Longrightarrow>
     length row' = length row \<and>
     (\<forall>k < length row.
        list_all (\<lambda>c. value_child_text c \<noteq> None \<longrightarrow> cell_slot (length row) c \<noteq> Some k) cells
        \<longrightarrow> row' ! k = row ! k)"
proof (induction cells arbitrary: row)
  case Nil
  then show ?case by simp
next
  case (Cons c cells)
  from Cons.prems obtain mid where mid: "load_cell ss row c = Inr mid"
    and rest: "load_cells ss mid cells = Inr row'"
    by (auto split: sum.splits)
  note a = load_cell_Inr [OF mid]
  from Cons.IH [OF rest] a(1) a(2) show ?case
    by auto
qed

text \<open>
  Claim C10. A cell element without a \<open>v\<close> child assigns nothing, whatever its type
  marker: processing it returns the row unchanged, and a row reads the same with the
  element removed. Hence a slot of the pre-sized row that no cell element with a value
  addresses is still \<open>None\<close> in the row that \<open>loadSheetData\<close> builds.
\<close>

theorem valueless_cell_stays_absent:
  "(value_child_text c_node = None \<and> cell_column c_node \<noteq> None
      \<longrightarrow> load_cell sharedStrings row c_node = Inr row
        \<and> load_cells sharedStrings row (before @ c_node # rest)
            = load_cells sharedStrings row (before @ rest))
   \<and> (\<forall>n row' k. load_row sharedStrings row_node = Inr (n, row') \<and> k < length row'
          \<and> list_all (\<lambda>c. value_child_text c \<noteq> None \<longrightarrow> cell_slot (length row') c \<noteq> Some k)
               (xml_findall row_node (qname NS_MAIN ''c''))
        \<longrightarrow> row' ! k = CNone)"
proof (intro conjI allI impI)
  assume h: "value_child_text c_node = None \<and> cell_column c_node \<noteq> None"
  then have step: "\<And>r. load_cell sharedStrings r c_node = Inr r"
    by (simp add: load_cell_valueless)
  show "load_cell sharedStrings row c_node = Inr row" by (rule step)
  show "load_cells sharedStrings row (before @ c_node # rest)
            = load_cells sharedStrings row (before @ rest)"
    by (simp add: load_cells_append step split: sum.splits)
next
  fix n row' k
  assume h: "load_row sharedStrings row_node = Inr (n, row') \<and> k < length row'
          \<and> list_all (\<lambda>c. value_child_text c \<noteq> None \<longrightarrow> cell_slot (length row') c \<noteq> Some k)
               (xml_findall row_node (qname NS_MAIN ''c''))"
  then obtain len where
    lc: "load_cells sharedStrings (replicate (nat len) CNone)
           (xml_findall row_node (qname NS_MAIN ''c'')) = Inr row'"
    by (auto simp: load_row_def split: option.splits sum.splits)
  from load_cells_Inr [OF lc] h show "row' ! k = CNone"
    by auto
qed

theorem valueless_cell_stays_absent_witness:
  "load_cell [] [CInt 5, CNone, CNone]
      (Element (qname NS_MAIN ''c'') [(''r'', ''B1''), (''t'', ''s'')] None [])
     = Inr [CInt 5, CNone, CNone]
   \<and> (\<exists>row'. load_row [] valueless_row = Inr (1, row') \<and> length row' = 3
        \<and> row' ! 0 = CInt 5 \<and> row' ! 1 = CNone \<and> row' ! 2 = CNone)"
proof -
  let ?b = "Element (qname NS_MAIN ''c'') [(''r'', ''B1''), (''t'', ''s'')] None []"
  have vb: "value_child_text ?b = None \<and> cell_column ?b \<noteq> None"
    by (simp add: value_child_text_def cell_column_def xml_find_def attrib_get_def)
  have lr: "load_row [] valueless_row = Inr (1, [CInt 5, CNone, CNone])"
    by code_simp
  have cells: "\<And>k. list_all (\<lambda>c. value_child_text c \<noteq> None \<longrightarrow> cell_slot 3 c \<noteq> Some (Suc k))
                 (xml_findall valueless_row (qname NS_MAIN ''c''))"
    by (simp add: valueless_row_def xml_findall_def value_child_text_def xml_find_def
        cell_slot_def cell_column_def attrib_get_def py_position_def)
  have one: "[CInt 5, CNone, CNone] ! 1 = CNone"
    using valueless_cell_stays_absent [where row_node = valueless_row and sharedStrings = "[]",
        THEN conjunct2, rule_format, of 1 "[CInt 5, CNone, CNone]" 1] lr cells [of 0]
    by simp
  have step: "load_cell [] [CInt 5, CNone, CNone] ?b = Inr [CInt 5, CNone, CNone]"
    using valueless_cell_stays_absent [where c_node = ?b and sharedStrings = "[]"
        and row = "[CInt 5, CNone, CNone]", THEN conjunct1] vb
    by simp
  from lr one step show ?thesis by simp
qed

subsection \<open>Placement of rows\<close>

lemma load_rows_list_all2:
  "(load_rows ss nodes acc = Inr out) =
     (\<exists>raw. list_all2 (\<lambda>node r. load_row ss node = Inr r) nodes raw \<and> out = acc @ raw)"
proof (induction nodes arbitrary: acc out)
  case Nil
  then show ?case by auto
next
  case (Cons node nodes)
  show ?case
  proof (cases "load_row ss node")
    case (Inl e)
    then show ?thesis by (auto simp: list_all2_Cons1)
  next
    case (Inr r)
    then show ?thesis
      by (auto simp: Cons.IH list_all2_Cons1)
  qed
qed

lemma place_rows_spec:
  "list_all (\<lambda>r. 1 \<le> fst r \<and> fst r \<le> int (length g0)) raw \<Longrightarrow>
     \<exists>g. place_rows g0 raw = Inr g \<and> length g = length g0 \<and>
         (\<forall>i<length g0. g ! i = (case last_declared raw (int i + 1) of
                                     None \<Rightarrow> g0 ! i | Some row \<Rightarrow> row))"
proof (induction raw arbitrary: g0)
  case Nil
  then show ?case by (simp add: last_declared_def)
next
  case (Cons r raw)
  let ?k = "nat (fst r - 1)"
  let ?g1 = "g0[?k := snd r]"
  from Cons.prems have rng: "1 \<le> fst r" "fst r \<le> int (length g0)" by auto
  then have pos: "py_position (length g0) (fst r - 1) = Some ?k"
    by (auto simp: py_position_def)
  have set1: "py_list_set g0 (fst r - 1) (snd r) = Inr ?g1"
    by (simp add: py_list_set_def pos)
  from Cons.prems have "list_all (\<lambda>r. 1 \<le> fst r \<and> fst r \<le> int (length ?g1)) raw" by simp
  from Cons.IH [OF this] obtain g where g: "place_rows ?g1 raw = Inr g" "length g = length g0"
    and nth: "\<forall>i<length g0. g ! i = (case last_declared raw (int i + 1) of
                                     None \<Rightarrow> ?g1 ! i | Some row \<Rightarrow> row)"
    by auto
  have "place_rows g0 (r # raw) = Inr g" by (simp add: set1 g)
  moreover have "\<forall>i<length g0. g ! i = (case last_declared (r # raw) (int i + 1) of
                                     None \<Rightarrow> g0 ! i | Some row \<Rightarrow> row)"
  proof (intro allI impI)
    fix i assume i: "i < length g0"
    have k: "?k < length g0" using rng by auto
    have eq: "(fst r = int i + 1) = (i = ?k)" using rng by auto
    show "g ! i = (case last_declared (r # raw) (int i + 1) of
                                     None \<Rightarrow> g0 ! i | Some row \<Rightarrow> row)"
      using nth [rule_format, OF i] i k eq
      by (cases r) (auto simp: last_declared_def map_add_def nth_list_update split: option.splits)
  qed
  ultimately show ?case using g by auto
qed

lemma last_declared_distinct:
  "distinct (map fst raw) \<Longrightarrow> r \<in> set raw \<Longrightarrow> last_declared raw (fst r) = Some (snd r)"
  by (cases r) (simp add: last_declared_def distinct_rev rev_map [symmetric])

text \<open>
  Claim C6. When every row element of the \<open>sheetData\<close> node loads and declares a number
  of at least one, \<open>loadSheetData\<close> returns a grid whose length is the largest declared
  number; index \<open>i\<close> holds the row declared with number \<open>i + 1\<close> (the one declared last,
  should a number be declared more than once), whatever the order of the row elements,
  and the empty row \<open>[]\<close> when no row element declares that number.
\<close>

theorem rows_placed_by_declared_number:
  "list_all2 (\<lambda>row_node r. load_row sharedStrings row_node = Inr r)
       (xml_findall sheetData_node (qname NS_MAIN ''row'')) raw_rows
     \<and> raw_rows \<noteq> [] \<and> list_all (\<lambda>r. 1 \<le> fst r) raw_rows
   \<longrightarrow> (\<exists>rows. build_grid sharedStrings sheetData_node = Inr rows
          \<and> int (length rows) = Max (set (map fst raw_rows))
          \<and> (\<forall>i<length rows. rows ! i = (case last_declared raw_rows (int i + 1) of
                                            None \<Rightarrow> [] | Some row \<Rightarrow> row))
          \<and> (distinct (map fst raw_rows)
               \<longrightarrow> list_all (\<lambda>r. rows ! nat (fst r - 1) = snd r) raw_rows)
          \<and> (\<forall>self index path root_node.
                sheetPath self index = Inr path
                \<and> loadXml (wb_archive self) path = Inr root_node
                \<and> xml_find root_node (qname NS_MAIN ''sheetData'') = Some sheetData_node
                \<and> wb_sharedStrings self = sharedStrings
              \<longrightarrow> loadSheetData self index = Inr rows))"
proof (intro impI)
  assume h: "list_all2 (\<lambda>row_node r. load_row sharedStrings row_node = Inr r)
       (xml_findall sheetData_node (qname NS_MAIN ''row'')) raw_rows
     \<and> raw_rows \<noteq> [] \<and> list_all (\<lambda>r. 1 \<le> fst r) raw_rows"
  let ?m = "Max (set (map fst raw_rows))"
  let ?g0 = "replicate (nat ?m) ([] :: row)"
  have lr: "load_rows sharedStrings (xml_findall sheetData_node (qname NS_MAIN ''row'')) []
              = Inr raw_rows"
    using h by (simp add: load_rows_list_all2)
  have le: "\<forall>r\<in>set raw_rows. fst r \<le> ?m" by auto
  obtain r0 where r0: "r0 \<in> set raw_rows" using h by (cases raw_rows) auto
  from r0 h have "1 \<le> fst r0" by (simp add: list_all_iff)
  moreover from le r0 have "fst r0 \<le> ?m" by (rule bspec)
  ultimately have m1: "1 \<le> ?m" by (rule order_trans)
  have "list_all (\<lambda>r. 1 \<le> fst r \<and> fst r \<le> int (length ?g0)) raw_rows"
    using h le m1 by (auto simp: list_all_iff)
  from place_rows_spec [OF this] obtain rows where
    pl: "place_rows ?g0 raw_rows = Inr rows" and len: "length rows = nat ?m"
    and nth: "\<forall>i<nat ?m. rows ! i = (case last_declared raw_rows (int i + 1) of
                                     None \<Rightarrow> ?g0 ! i | Some row \<Rightarrow> row)"
    by auto
  have bg: "build_grid sharedStrings sheetData_node = Inr rows"
    using h pl by (simp add: build_grid_def lr Let_def)
  have c2: "int (length rows) = ?m" using len m1 by simp
  have c3: "\<forall>i<length rows. rows ! i = (case last_declared raw_rows (int i + 1) of
                                            None \<Rightarrow> [] | Some row \<Rightarrow> row)"
    using nth len by (auto split: option.splits)
  have c4: "distinct (map fst raw_rows)
               \<longrightarrow> list_all (\<lambda>r. rows ! nat (fst r - 1) = snd r) raw_rows"
  proof (intro impI, unfold list_all_iff, intro ballI)
    fix r assume d: "distinct (map fst raw_rows)" and r: "r \<in> set raw_rows"
    from h r have r1: "1 \<le> fst r" by (auto simp: list_all_iff)
    from le r have "fst r \<le> ?m" by blast
    with r1 len have i: "nat (fst r - 1) < length rows" by auto
    from c3 [rule_format, OF i] last_declared_distinct [OF d r] r1
    show "rows ! nat (fst r - 1) = snd r" by simp
  qed
  have c5: "\<forall>self index path root_node.
                sheetPath self index = Inr path
                \<and> loadXml (wb_archive self) path = Inr root_node
                \<and> xml_find root_node (qname NS_MAIN ''sheetData'') = Some sheetData_node
                \<and> wb_sharedStrings self = sharedStrings
              \<longrightarrow> loadSheetData self index = Inr rows"
    using bg by (auto simp: loadSheetData_def)
  from bg c2 c3 c4 c5 show "\<exists>rows. build_grid sharedStrings sheetData_node = Inr rows
          \<and> int (length rows) = Max (set (map fst raw_rows))
          \<and> (\<forall>i<length rows. rows ! i = (case last_declared raw_rows (int i + 1) of
                                            None \<Rightarrow> [] | Some row \<Rightarrow> row))
          \<and> (distinct (map fst raw_rows)
               \<longrightarrow> list_all (\<lambda>r. rows ! nat (fst r - 1) = snd r) raw_rows)
          \<and> (\<forall>self index path root_node.
                sheetPath self index = Inr path
                \<and> loadXml (wb_archive self) path = Inr root_node
                \<and> xml_find root_node (qname NS_MAIN ''sheetData'') = Some sheetData_node
                \<and> wb_sharedStrings self = sharedStrings
              \<longrightarrow> loadSheetData self index = Inr rows)"
    by blast
qed


theorem rows_placed_by_declared_number_witness:
  "(\<exists>rows. build_grid [] out_of_order_sheet = Inr rows \<and> length rows = 3
        \<and> rows ! 0 = [CInt 10, CNone] \<and> rows ! 1 = [] \<and> rows ! 2 = [CNone, CInt 30])
   \<and> build_grid [] repeated_number_sheet = Inr [[CNone, CInt 20]]"
proof -
  let ?raw = "[(3, [CNone, CInt 30]), (1, [CInt 10, CNone])] :: (int \<times> row) list"
  have loads: "list_all2 (\<lambda>row_node r. load_row [] row_node = Inr r)
       (xml_findall out_of_order_sheet (qname NS_MAIN ''row'')) ?raw"
    by code_simp
  have "?raw \<noteq> [] \<and> list_all (\<lambda>r. 1 \<le> fst r) ?raw" by simp
  with loads rows_placed_by_declared_number [of "[]" out_of_order_sheet ?raw]
  obtain rows where bg: "build_grid [] out_of_order_sheet = Inr rows"
    and len: "int (length rows) = Max (set (map fst ?raw))"
    and nth: "\<forall>i<length rows. rows ! i = (case last_declared ?raw (int i + 1) of
                                            None \<Rightarrow> [] | Some row \<Rightarrow> row)"
    by blast
  from len have l3: "length rows = 3" by simp
  have "rows ! 0 = [CInt 10, CNone]" "rows ! 1 = []" "rows ! 2 = [CNone, CInt 30]"
    using nth [rule_format, of 0] nth [rule_format, of 1] nth [rule_format, of 2] l3
    by (simp_all add: last_declared_def)
  moreover have "build_grid [] repeated_number_sheet = Inr [[CNone, CInt 20]]"
    by code_simp
  ultimately show ?thesis using bg l3 by simp
qed

subsection \<open>Partition into groups\<close>

lemma columnValues_ok:
  "first_row + n \<le> length rows \<Longrightarrow> list_all (\<lambda>i. cell_given rows j (first_row + i)) [0..<n] \<Longrightarrow>
   columnValues rows j first_row n = Inr (map (\<lambda>i. rows ! (first_row + i) ! j) [0..<n])"
  using columnValues_loop_ok [of first_row n rows j "[]"]
  by (simp add: columnValues_def list_all_iff)

lemma read_parameters_ok:
  "list_all (\<lambda>pr. snd pr < length rows \<and> c < length (rows ! snd pr)
                          \<and> truthy (rows ! snd pr ! c)) items \<Longrightarrow>
   read_parameters rows c items ps
     = Inr (foldl (\<lambda>d pr. dict_set d (fst pr) (rows ! snd pr ! c)) ps items)"
  by (induction items arbitrary: ps) (auto simp: Let_def)

lemma read_columns_span:
  "j < e \<Longrightarrow> e \<le> length headerRow \<Longrightarrow> first_row + n \<le> length rows \<Longrightarrow>
   list_all (\<lambda>j. truthy (headerRow ! j)) [j..<e] \<Longrightarrow>
   list_all (\<lambda>j. j < length name_row \<and> \<not> truthy (name_row ! j)) [Suc j..<e] \<Longrightarrow>
   list_all (\<lambda>j. list_all (\<lambda>i. cell_given rows j (first_row + i)) [0..<n]) [j..<e] \<Longrightarrow>
   group_ends headerRow name_row e \<or> truthy (name_row ! e) \<Longrightarrow>
   read_columns rows headerRow name_row first_row n j cols
     = Inr (e, foldl (\<lambda>d j. dict_set d (headerRow ! j)
                                 (map (\<lambda>i. rows ! (first_row + i) ! j) [0..<n])) cols [j..<e])"
proof (induction "e - j" arbitrary: j cols)
  case 0
  then show ?case by simp
next
  case (Suc d)
  let ?vals = "map (\<lambda>i. rows ! (first_row + i) ! j) [0..<n]"
  let ?cols' = "dict_set cols (headerRow ! j) ?vals"
  from Suc.prems have upt: "[j..<e] = j # [Suc j..<e]" by (simp add: upt_conv_Cons)
  from Suc.prems upt have hj: "j < length headerRow" "truthy (headerRow ! j)" by auto
  from Suc.prems upt have cv: "columnValues rows j first_row n = Inr ?vals"
    by (auto intro: columnValues_ok)
  show ?case
  proof (cases "Suc j = e")
    case True
    have stop: "read_columns rows headerRow name_row first_row n e ?cols' = Inr (e, ?cols')"
      if "\<not> (length name_row \<le> e \<or> truthy (name_row ! e))"
      using that Suc.prems(7) by (auto simp: read_columns.simps [of _ _ _ _ _ e] group_ends_def)
    show ?thesis
      using hj cv True upt stop
      by (auto simp: read_columns.simps [of _ _ _ _ _ j] Let_def)
  next
    case False
    with Suc.prems have lt: "Suc j < e" by simp
    then have upt2: "[Suc j..<e] = Suc j # [Suc (Suc j)..<e]" by (simp add: upt_conv_Cons)
    from Suc.prems upt upt2 have nm: "Suc j < length name_row" "\<not> truthy (name_row ! Suc j)"
      by auto
    have d: "d = e - Suc j" using Suc.hyps(2) by simp
    have rec: "read_columns rows headerRow name_row first_row n (Suc j) ?cols'
        = Inr (e, foldl (\<lambda>d j. dict_set d (headerRow ! j)
                                 (map (\<lambda>i. rows ! (first_row + i) ! j) [0..<n])) ?cols' [Suc j..<e])"
      using Suc.prems upt upt2 lt
      by (intro Suc.hyps(1) [OF d]) auto
    show ?thesis
      using hj cv nm rec upt
      by (auto simp: read_columns.simps [of _ _ _ _ _ j] Let_def)
  qed
qed

lemma py_eq_CStr: "py_eq x (CStr s) = (x = CStr s)"
  by (cases x) auto

lemma has_key_Nil: "has_key [] s = False"
  by (simp add: has_key_def)

lemma has_key_Cons: "has_key (kv # d) s = (fst kv = CStr s \<or> has_key d s)"
  by (cases kv) (simp add: has_key_def py_eq_CStr)

lemma has_key_dict_set: "has_key (dict_set d a v) s = (has_key d s \<or> a = CStr s)"
proof (induction d)
  case Nil
  show ?case by (simp add: has_key_Nil has_key_Cons)
next
  case (Cons kv d)
  obtain k w where kv: "kv = (k, w)" by (cases kv)
  show ?case
  proof (cases "py_eq k a")
    case True
    then have "a = CStr s \<Longrightarrow> k = CStr s" by (simp add: py_eq_CStr)
    with True show ?thesis by (auto simp: kv has_key_Cons)
  next
    case False
    then show ?thesis by (auto simp: kv has_key_Cons Cons.IH)
  qed
qed

lemma has_key_foldl:
  "has_key (foldl (\<lambda>d j. dict_set d (f j) (g j)) d0 js) s
     = (has_key d0 s \<or> (\<exists>j\<in>set js. f j = CStr s))"
  by (induction js arbitrary: d0) (auto simp: has_key_dict_set)

lemma get_first_Some:
  "list_ex (has_key d) names \<Longrightarrow> get_first d names \<noteq> None"
  by (induction names) (auto simp: has_key_def split: option.splits)

lemma check_columns_ok:
  "list_all (\<lambda>x. get_first cols (names_of x) \<noteq> None) xs \<Longrightarrow> check_columns cols ps xs = Inr ()"
  by (induction xs) (auto simp: Let_def split: option.splits)

lemma group_step:
  assumes g: "group_at rows headerRow name_row hmap first_row n c e"
    and b: "group_ends headerRow name_row e \<or> truthy (name_row ! e)"
  shows "read_parameter_sets rows headerRow name_row hmap first_row n c sets
       = read_parameter_sets rows headerRow name_row hmap first_row n e
           (sets @ [expected_set rows headerRow hmap first_row n c e])"
proof -
  let ?cols = "foldl (\<lambda>d j. dict_set d (headerRow ! j)
                                 (map (\<lambda>i. rows ! (first_row + i) ! j) [0..<n])) [] [c..<e]"
  let ?ps = "foldl (\<lambda>d pr. dict_set d (fst pr) (rows ! snd pr ! c)) [] hmap"
  from g have ce: "c < e" "e \<le> length headerRow" "c < length name_row"
    by (auto simp: group_at_def)
  from g ce have hc: "truthy (headerRow ! c)"
    by (auto simp: group_at_def list_all_iff)
  from g have rp: "read_parameters rows c hmap [] = Inr ?ps"
    by (intro read_parameters_ok) (simp add: group_at_def)
  from g b have rc: "read_columns rows headerRow name_row first_row n c [] = Inr (e, ?cols)"
    by (intro read_columns_span) (simp_all add: group_at_def)
  have "list_all (\<lambda>x. get_first ?cols (names_of x) \<noteq> None) COLUMNS"
    unfolding list_all_iff
  proof
    fix x assume "x \<in> set COLUMNS"
    with g have "\<exists>name\<in>set (names_of x). \<exists>j\<in>set [c..<e]. headerRow ! j = CStr name"
      by (simp add: group_at_def list_all_iff list_ex_iff)
    then have "list_ex (has_key ?cols) (names_of x)"
      unfolding list_ex_iff has_key_foldl has_key_Nil by simp
    then show "get_first ?cols (names_of x) \<noteq> None" by (rule get_first_Some)
  qed
  then have cc: "check_columns ?cols ?ps COLUMNS = Inr ()" by (rule check_columns_ok)
  show ?thesis
    using ce hc rp rc cc
    by (simp add: read_parameter_sets.simps [of _ _ _ _ _ _ c] expected_set_def)
qed

lemma group_stop:
  "group_ends headerRow name_row e \<Longrightarrow>
   read_parameter_sets rows headerRow name_row hmap first_row n e sets = Inr sets"
  by (auto simp: read_parameter_sets.simps [of _ _ _ _ _ _ e] group_ends_def)


lemma dict_get_dict_set_CStr:
  "dict_get (dict_set d a v) (CStr s) = (if a = CStr s then Some v else dict_get d (CStr s))"
proof (induction d)
  case Nil
  show ?case by (simp add: py_eq_CStr)
next
  case (Cons kv d)
  obtain k w where kv: "kv = (k, w)" by (cases kv)
  have sym: "py_eq (CStr s) a = (a = CStr s)" by (cases a) auto
  show ?case
  proof (cases "py_eq k a")
    case True
    then have "a = CStr s \<Longrightarrow> k = CStr s" "k = CStr s \<Longrightarrow> a = CStr s"
      by (auto simp: py_eq_CStr sym)
    with True show ?thesis by (auto simp: kv py_eq_CStr)
  next
    case False
    with Cons.IH show ?thesis by (auto simp: kv py_eq_CStr)
  qed
qed

lemma find_app:
  "find P (xs @ ys) = (case find P xs of None \<Rightarrow> find P ys | Some x \<Rightarrow> Some x)"
  by (induction xs) auto

lemma dict_get_foldl_CStr:
  "dict_get (foldl (\<lambda>d x. dict_set d (f x) (g x)) d0 xs) (CStr s)
     = (case find (\<lambda>x. f x = CStr s) (rev xs) of
          None \<Rightarrow> dict_get d0 (CStr s) | Some x \<Rightarrow> Some (g x))"
proof (induction xs arbitrary: d0)
  case Nil
  show ?case by simp
next
  case (Cons x xs)
  show ?case
    by (simp add: Cons.IH dict_get_dict_set_CStr find_app split: option.splits)
qed

lemma one_group:
  "group_at rows headerRow name_row hmap first_row n c1 e1 \<Longrightarrow> group_ends headerRow name_row e1 \<Longrightarrow>
   read_parameter_sets rows headerRow name_row hmap first_row n c1 sets
     = Inr (sets @ [expected_set rows headerRow hmap first_row n c1 e1])"
  using group_step [of rows headerRow name_row hmap first_row n c1 e1 sets]
  by (simp add: group_stop)

lemma two_groups:
  assumes g1: "group_at rows headerRow name_row hmap first_row n c1 e1"
    and g2: "group_at rows headerRow name_row hmap first_row n e1 e2"
    and stop: "group_ends headerRow name_row e2"
  shows "read_parameter_sets rows headerRow name_row hmap first_row n c1 sets
     = Inr (sets @ [expected_set rows headerRow hmap first_row n c1 e1,
                    expected_set rows headerRow hmap first_row n e1 e2])"
proof -
  from g2 have "truthy (name_row ! e1)" by (simp add: group_at_def)
  then have "read_parameter_sets rows headerRow name_row hmap first_row n c1 sets
        = read_parameter_sets rows headerRow name_row hmap first_row n e1
            (sets @ [expected_set rows headerRow hmap first_row n c1 e1])"
    using group_step [OF g1, of sets] by simp
  also have "\<dots> = Inr ((sets @ [expected_set rows headerRow hmap first_row n c1 e1])
               @ [expected_set rows headerRow hmap first_row n e1 e2])"
    using g2 stop by (rule one_group)
  finally show ?thesis by simp
qed

lemma located_extraction:
  "table_located rows hri hci hmap nri codes \<Longrightarrow>
   loadBatchParameters_rows rows =
     (case read_parameter_sets rows (rows ! hri) (rows ! nri) hmap (hri + 1) (length codes)
             (hci + 1) [] of
        Inl e \<Rightarrow> Inl e
      | Inr sets \<Rightarrow> Inr \<lparr>biotopeCodes = codes, parameterSets = sets\<rparr>)"
  by (auto simp: table_located_def loadBatchParameters_rows_def Let_def split: option.splits)

text \<open>
  Claim C1. Once the table is located, two groups that stand side by side (the name row
  shows a new value at the column after the last data column of the first group) give
  exactly two parameter sets, each with the scalars of its first column and the data
  columns of its span. A blank header-row cell after the first group ends the reading:
  exactly one parameter set is returned, whatever stands to the right of that column. The
  last two conjuncts spell out what a parameter set holds under a label.
\<close>

theorem groups_partitioned_at_name_or_blank_header:
  "(table_located rows headerRowIndex headerColumnIndex header_to_row_map name_row_index codes
      \<and> group_at rows (rows ! headerRowIndex) (rows ! name_row_index) header_to_row_map
            (headerRowIndex + 1) (length codes) (headerColumnIndex + 1) e1
    \<longrightarrow> (group_ends (rows ! headerRowIndex) (rows ! name_row_index) e1
           \<longrightarrow> loadBatchParameters_rows rows
                 = Inr \<lparr>biotopeCodes = codes,
                        parameterSets =
                          [expected_set rows (rows ! headerRowIndex) header_to_row_map
                             (headerRowIndex + 1) (length codes) (headerColumnIndex + 1) e1]\<rparr>)
      \<and> (group_at rows (rows ! headerRowIndex) (rows ! name_row_index) header_to_row_map
              (headerRowIndex + 1) (length codes) e1 e2
           \<and> group_ends (rows ! headerRowIndex) (rows ! name_row_index) e2
           \<longrightarrow> loadBatchParameters_rows rows
                 = Inr \<lparr>biotopeCodes = codes,
                        parameterSets =
                          [expected_set rows (rows ! headerRowIndex) header_to_row_map
                             (headerRowIndex + 1) (length codes) (headerColumnIndex + 1) e1,
                           expected_set rows (rows ! headerRowIndex) header_to_row_map
                             (headerRowIndex + 1) (length codes) e1 e2]\<rparr>))
   \<and> dict_get (columns (expected_set rows headerRow header_to_row_map first_row n c e)) (CStr s)
       = (case find (\<lambda>j. headerRow ! j = CStr s) (rev [c..<e]) of
            None \<Rightarrow> None
          | Some j \<Rightarrow> Some (map (\<lambda>i. rows ! (first_row + i) ! j) [0..<n]))
   \<and> dict_get (parameters (expected_set rows headerRow header_to_row_map first_row n c e)) (CStr s)
       = (case find (\<lambda>pr. fst pr = CStr s) (rev header_to_row_map) of
            None \<Rightarrow> None
          | Some pr \<Rightarrow> Some (rows ! snd pr ! c))"
proof (intro conjI impI)
  assume h: "table_located rows headerRowIndex headerColumnIndex header_to_row_map name_row_index codes
      \<and> group_at rows (rows ! headerRowIndex) (rows ! name_row_index) header_to_row_map
            (headerRowIndex + 1) (length codes) (headerColumnIndex + 1) e1"
  note ex = located_extraction [OF h [THEN conjunct1]]
  note g1 = h [THEN conjunct2]
  {
    assume "group_ends (rows ! headerRowIndex) (rows ! name_row_index) e1"
    from one_group [OF g1 this, of "[]"]
    show "loadBatchParameters_rows rows
                 = Inr \<lparr>biotopeCodes = codes,
                        parameterSets =
                          [expected_set rows (rows ! headerRowIndex) header_to_row_map
                             (headerRowIndex + 1) (length codes) (headerColumnIndex + 1) e1]\<rparr>"
      by (simp add: ex)
  }
  {
    assume h2: "group_at rows (rows ! headerRowIndex) (rows ! name_row_index) header_to_row_map
              (headerRowIndex + 1) (length codes) e1 e2
           \<and> group_ends (rows ! headerRowIndex) (rows ! name_row_index) e2"
    from two_groups [OF g1 h2 [THEN conjunct1] h2 [THEN conjunct2], of "[]"]
    show "loadBatchParameters_rows rows
                 = Inr \<lparr>biotopeCodes = codes,
                        parameterSets =
                          [expected_set rows (rows ! headerRowIndex) header_to_row_map
                             (headerRowIndex + 1) (length codes) (headerColumnIndex + 1) e1,
                           expected_set rows (rows ! headerRowIndex) header_to_row_map
                             (headerRowIndex + 1) (length codes) e1 e2]\<rparr>"
      by (simp add: ex)
  }
next
  show "dict_get (columns (expected_set rows headerRow header_to_row_map first_row n c e)) (CStr s)
       = (case find (\<lambda>j. headerRow ! j = CStr s) (rev [c..<e]) of
            None \<Rightarrow> None
          | Some j \<Rightarrow> Some (map (\<lambda>i. rows ! (first_row + i) ! j) [0..<n]))"
    by (simp add: expected_set_def dict_get_foldl_CStr split: option.splits)
next
  show "dict_get (parameters (expected_set rows headerRow header_to_row_map first_row n c e)) (CStr s)
       = (case find (\<lambda>pr. fst pr = CStr s) (rev header_to_row_map) of
            None \<Rightarrow> None
          | Some pr \<Rightarrow> Some (rows ! snd pr ! c))"
    by (simp add: expected_set_def dict_get_foldl_CStr split: option.splits)
qed

theorem groups_partitioned_at_name_or_blank_header_witness:
  "table_located adjacent_grid 3 1 example_row_headers 0 [CInt 11, CInt 12]
   \<and> group_at adjacent_grid (adjacent_grid ! 3) (adjacent_grid ! 0) example_row_headers 4 2 2 5
   \<and> group_at adjacent_grid (adjacent_grid ! 3) (adjacent_grid ! 0) example_row_headers 4 2 5 8
   \<and> group_ends (adjacent_grid ! 3) (adjacent_grid ! 0) 8
   \<and> loadBatchParameters_rows adjacent_grid
     = Inr \<lparr>biotopeCodes = [CInt 11, CInt 12], parameterSets = [set_A, set_B]\<rparr>
   \<and> table_located spacer_grid 3 1 example_row_headers 0 [CInt 11, CInt 12]
   \<and> group_at spacer_grid (spacer_grid ! 3) (spacer_grid ! 0) example_row_headers 4 2 2 5
   \<and> group_ends (spacer_grid ! 3) (spacer_grid ! 0) 5"
proof -
  have loc: "table_located adjacent_grid 3 1 example_row_headers 0 [CInt 11, CInt 12]"
    by code_simp
  have g1: "group_at adjacent_grid (adjacent_grid ! 3) (adjacent_grid ! 0) example_row_headers 4 2 2 5"
    by code_simp
  have g2: "group_at adjacent_grid (adjacent_grid ! 3) (adjacent_grid ! 0) example_row_headers 4 2 5 8
            \<and> group_ends (adjacent_grid ! 3) (adjacent_grid ! 0) 8"
    by code_simp
  have sp: "table_located spacer_grid 3 1 example_row_headers 0 [CInt 11, CInt 12]
   \<and> group_at spacer_grid (spacer_grid ! 3) (spacer_grid ! 0) example_row_headers 4 2 2 5
   \<and> group_ends (spacer_grid ! 3) (spacer_grid ! 0) 5"
    by code_simp
  have h1: "table_located adjacent_grid 3 1 example_row_headers 0 [CInt 11, CInt 12]
      \<and> group_at adjacent_grid (adjacent_grid ! 3) (adjacent_grid ! 0) example_row_headers
            (3 + 1) (length [CInt 11, CInt 12]) (1 + 1) 5"
    by code_simp
  have h2: "group_at adjacent_grid (adjacent_grid ! 3) (adjacent_grid ! 0) example_row_headers
              (3 + 1) (length [CInt 11, CInt 12]) 5 8
           \<and> group_ends (adjacent_grid ! 3) (adjacent_grid ! 0) 8"
    by code_simp
  have a: "expected_set adjacent_grid (adjacent_grid ! 3) example_row_headers
             (3 + 1) (length [CInt 11, CInt 12]) (1 + 1) 5 = set_A"
    by code_simp
  have b: "expected_set adjacent_grid (adjacent_grid ! 3) example_row_headers
             (3 + 1) (length [CInt 11, CInt 12]) 5 8 = set_B"
    by code_simp
  have "loadBatchParameters_rows adjacent_grid
     = Inr \<lparr>biotopeCodes = [CInt 11, CInt 12], parameterSets = [set_A, set_B]\<rparr>"
    using groups_partitioned_at_name_or_blank_header
      [of adjacent_grid 3 1 example_row_headers 0 "[CInt 11, CInt 12]" 5 8,
        THEN conjunct1, rule_format, OF h1, THEN conjunct2, rule_format, OF h2]
    by (simp only: a b)
  with loc g1 g2 sp show ?thesis by simp
qed

text \<open>
  With a blank spacer column between the two groups only the first group is returned.
\<close>

theorem spacer_column_counterexample:
  "list_all (\<lambda>row. row ! 5 = CNone) spacer_grid
   \<and> map (\<lambda>row. take 5 row @ drop 6 row) spacer_grid = adjacent_grid
   \<and> loadBatchParameters_rows spacer_grid
     = Inr \<lparr>biotopeCodes = [CInt 11, CInt 12], parameterSets = [set_A]\<rparr>"
  by code_simp

end
